theory Spec2Isabelle
  imports Main "HOL-Library.Word"
begin

unbundle bit_operations_syntax

section \<open>The escape interpreter of gocui (escape.go)\<close>

text \<open>
  A shallow embedding of \<^verbatim>\<open>vendor/github.com/jesseduffield/gocui/escape.go\<close>.
  The struct \<^verbatim>\<open>escapeInterpreter\<close> is a record that every method takes and returns;
  its \<^verbatim>\<open>sync.Mutex\<close> is the field \<open>mutex\<close> (held or not). The model is sequential: a
  call that locks a mutex that is already held never returns, which is the outcome
  \<open>Deadlock\<close>; an index out of range is the outcome \<open>Panic\<close>.
\<close>

subsection \<open>Go values\<close>

text \<open>A rune is a code point (Go's \<^verbatim>\<open>int32\<close>); a string is its list of bytes.\<close>

type_synonym rune = int

definition rune :: "char \<Rightarrow> rune" where
  "rune c = of_char c"

text \<open>
  \<^verbatim>\<open>string(ch)\<close> and \<^verbatim>\<open>[]rune(s)\<close>. The source applies the first to digits and \<^verbatim>\<open>?\<close> only,
  for which the UTF-8 encoding is the single byte; the second is then one rune per byte.
\<close>

definition string_of_rune :: "rune \<Rightarrow> string" where
  "string_of_rune ch = [char_of ch]"

definition runes_of_string :: "string \<Rightarrow> rune list" where
  "runes_of_string s = map of_char s"

text \<open>Go's \<^verbatim>\<open>int\<close> on a 64-bit platform: \<^verbatim>\<open>+\<close> wraps around in two's complement.\<close>

definition intSize :: nat where
  "intSize = 64"

definition wrap_int :: "int \<Rightarrow> int" where
  "wrap_int n = signed_take_bit (intSize - 1) n"

text \<open>
  \<^verbatim>\<open>strconv.Atoi\<close>: an optional sign, then at least one decimal digit and nothing else;
  a value outside the range of \<^verbatim>\<open>int\<close> is an error. \<open>None\<close> stands for a non-nil error.
\<close>

definition isDigit :: "char \<Rightarrow> bool" where
  "isDigit c = (48 \<le> (of_char c :: nat) \<and> (of_char c :: nat) \<le> 57)"

definition digitsValue :: "string \<Rightarrow> int" where
  "digitsValue ds = foldl (\<lambda>n c. n * 10 + (of_char c - 48)) 0 ds"

definition Atoi :: "string \<Rightarrow> int option" where
  "Atoi s =
     (let neg = (s \<noteq> [] \<and> hd s = CHR ''-'');
          ds = (if s \<noteq> [] \<and> (hd s = CHR ''-'' \<or> hd s = CHR ''+'') then tl s else s);
          n = (if neg then - digitsValue ds else digitsValue ds)
      in if ds = [] \<or> \<not> list_all isDigit ds then None
         else if n < - (2 ^ (intSize - 1)) \<or> 2 ^ (intSize - 1) \<le> n then None
         else Some n)"

subsection \<open>Declarations that escape.go uses from the rest of the package\<close>

text \<open>
  The type \<^verbatim>\<open>Attribute\<close> and the constants \<^verbatim>\<open>ColorDefault\<close>, \<^verbatim>\<open>AttrBold\<close>,
  \<^verbatim>\<open>AttrUnderline\<close>, \<^verbatim>\<open>AttrReverse\<close> are declared in a file of the package that is not
  among the sources, so they are parameters here. The source combines attributes with
  \<^verbatim>\<open>|=\<close> and converts an \<^verbatim>\<open>int\<close> to one, so \<^verbatim>\<open>Attribute\<close> is an integer type: the records
  leave it as the type parameter \<open>'a\<close>, and every function takes a word \<open>'a word\<close> of some
  width for it. The four constants are the record \<open>K\<close> that every function mentioning
  them takes first.
\<close>

record 'a attribute_decls =
  ColorDefault :: 'a
  AttrBold :: 'a
  AttrUnderline :: 'a
  AttrReverse :: 'a

text \<open>The conversion \<^verbatim>\<open>Attribute(n)\<close> of an \<^verbatim>\<open>int\<close> keeps the low bits.\<close>

definition Attribute :: "int \<Rightarrow> 'a::len word" where
  "Attribute n = word_of_int n"

text \<open>
  Modelled from the spec: the type \<^verbatim>\<open>OutputMode\<close> with its constants \<^verbatim>\<open>OutputNormal\<close>
  (Basic) and \<^verbatim>\<open>Output256\<close> (Extended) is declared outside the sources too.
  \<open>OutputOther\<close> is any further value of the type: the switch on the mode in \<^verbatim>\<open>parseOne\<close>
  has no default case.
\<close>

datatype OutputMode = OutputNormal | Output256 | OutputOther

subsection \<open>Types and constants of escape.go\<close>

text \<open>The instruction kinds are \<^verbatim>\<open>1 << iota\<close>.\<close>

definition NONE :: int where "NONE = 1"
definition CURSOR_UP :: int where "CURSOR_UP = 2"
definition CURSOR_DOWN :: int where "CURSOR_DOWN = 4"
definition CURSOR_LEFT :: int where "CURSOR_LEFT = 8"
definition CURSOR_RIGHT :: int where "CURSOR_RIGHT = 16"
definition CURSOR_MOVE :: int where "CURSOR_MOVE = 32"
definition CLEAR_SCREEN :: int where "CLEAR_SCREEN = 64"
definition ERASE_TO_END_OF_LINE :: int where "ERASE_TO_END_OF_LINE = 128"
definition SAVE_CURSOR_POS :: int where "SAVE_CURSOR_POS = 256"
definition RESTORE_CURSOR_POS :: int where "RESTORE_CURSOR_POS = 512"

record instruction =
  kind :: int
  param1 :: int
  param2 :: int

datatype escapeState = stateNone | stateEscape | stateCSI | stateParams

definition directionMap :: "rune \<rightharpoonup> int" where
  "directionMap =
     [rune CHR ''A'' \<mapsto> CURSOR_UP,
      rune CHR ''B'' \<mapsto> CURSOR_DOWN,
      rune CHR ''C'' \<mapsto> CURSOR_LEFT,
      rune CHR ''D'' \<mapsto> CURSOR_RIGHT]"

text \<open>Indexing a Go map: the zero value for a key that is absent.\<close>

definition mapIndex :: "(rune \<rightharpoonup> int) \<Rightarrow> rune \<Rightarrow> int" where
  "mapIndex m k = (case m k of None \<Rightarrow> 0 | Some v \<Rightarrow> v)"

datatype error = errNotCSI | errCSIParseError | errCSITooLong

record 'a escapeInterpreter =
  state :: escapeState
  curch :: rune
  csiParam :: "string list"
  curFgColor :: 'a
  curBgColor :: 'a
  mode :: OutputMode
  mutex :: bool
  instruction :: instruction

text \<open>How a call ends: it never returns, it panics, or it returns a value.\<close>

datatype 'r outcome = Deadlock | Panic | Return 'r

text \<open>
  \<^verbatim>\<open>ei.mutex.Lock(); defer ei.mutex.Unlock()\<close> around a method body. \<^verbatim>\<open>sync.Mutex\<close> is not
  reentrant: locking it while it is held blocks until it is released, and in a
  sequential run nobody releases it.
\<close>

definition Lock_defer_Unlock ::
  "('a::len word escapeInterpreter \<Rightarrow> ('r \<times> 'a word escapeInterpreter) outcome) \<Rightarrow>
   'a word escapeInterpreter \<Rightarrow> ('r \<times> 'a word escapeInterpreter) outcome" where
  "Lock_defer_Unlock body ei =
     (if mutex ei then Deadlock
      else case body (ei\<lparr>mutex := True\<rparr>) of
             Deadlock \<Rightarrow> Deadlock
           | Panic \<Rightarrow> Panic
           | Return (r, ei') \<Rightarrow> Return (r, ei'\<lparr>mutex := False\<rparr>))"

subsection \<open>runes, newEscapeInterpreter, reset, instructionRead\<close>

definition runes :: "'a::len word escapeInterpreter \<Rightarrow> (rune list \<times> 'a word escapeInterpreter) outcome" where
  "runes = Lock_defer_Unlock (\<lambda>ei. Return
     (case state ei of
        stateNone \<Rightarrow> [0x1b]
      | stateEscape \<Rightarrow> [0x1b, curch ei]
      | stateCSI \<Rightarrow> [0x1b, rune CHR ''['', curch ei]
      | stateParams \<Rightarrow>
          ([0x1b, rune CHR ''[''] @ concat (map runes_of_string (csiParam ei))) @ [curch ei],
      ei))"

definition newEscapeInterpreter :: "'a::len word attribute_decls \<Rightarrow> OutputMode \<Rightarrow> 'a word escapeInterpreter" where
  "newEscapeInterpreter K m =
     \<lparr>state = stateNone, curch = 0, csiParam = [],
      curFgColor = ColorDefault K, curBgColor = ColorDefault K,
      mode = m, mutex = False,
      instruction = \<lparr>kind = NONE, param1 = 0, param2 = 0\<rparr>\<rparr>"

definition reset :: "'a::len word attribute_decls \<Rightarrow> 'a word escapeInterpreter \<Rightarrow> (unit \<times> 'a word escapeInterpreter) outcome" where
  "reset K = Lock_defer_Unlock (\<lambda>ei. Return
     ((), ei\<lparr>state := stateNone, curFgColor := ColorDefault K,
            curBgColor := ColorDefault K, csiParam := []\<rparr>))"

definition instructionRead :: "'a::len word escapeInterpreter \<Rightarrow> 'a word escapeInterpreter" where
  "instructionRead ei = ei\<lparr>instruction := (instruction ei)\<lparr>kind := NONE\<rparr>\<rparr>"

subsection \<open>The colour resolvers\<close>

text \<open>One iteration of the loop of \<^verbatim>\<open>outputNormal\<close>, for a parameter that parsed to \<open>p\<close>.\<close>

definition outputNormal_case :: "'a::len word attribute_decls \<Rightarrow> int \<Rightarrow> 'a word escapeInterpreter \<Rightarrow> 'a word escapeInterpreter" where
  "outputNormal_case K p ei =
     (if p \<ge> 30 \<and> p \<le> 37 then ei\<lparr>curFgColor := Attribute (p - 30 + 1)\<rparr>
      else if p = 39 then ei\<lparr>curFgColor := ColorDefault K\<rparr>
      else if p \<ge> 40 \<and> p \<le> 47 then ei\<lparr>curBgColor := Attribute (p - 40 + 1)\<rparr>
      else if p = 49 then ei\<lparr>curBgColor := ColorDefault K\<rparr>
      else if p = 1 then ei\<lparr>curFgColor := curFgColor ei OR AttrBold K\<rparr>
      else if p = 4 then ei\<lparr>curFgColor := curFgColor ei OR AttrUnderline K\<rparr>
      else if p = 7 then ei\<lparr>curFgColor := curFgColor ei OR AttrReverse K\<rparr>
      else if p = 0 then ei\<lparr>curFgColor := ColorDefault K, curBgColor := ColorDefault K\<rparr>
      else ei)"

text \<open>The loop \<^verbatim>\<open>for _, param := range ei.csiParam\<close>, over the parameters still to visit.\<close>

fun outputNormal_loop ::
  "'a::len word attribute_decls \<Rightarrow> string list \<Rightarrow> 'a word escapeInterpreter \<Rightarrow> error option \<times> 'a word escapeInterpreter" where
  "outputNormal_loop K [] ei = (None, ei)"
| "outputNormal_loop K (param # params) ei =
     (case Atoi param of
        None \<Rightarrow> (Some errCSIParseError, ei)
      | Some p \<Rightarrow> outputNormal_loop K params (outputNormal_case K p ei))"

definition outputNormal :: "'a::len word attribute_decls \<Rightarrow> 'a word escapeInterpreter \<Rightarrow> error option \<times> 'a word escapeInterpreter" where
  "outputNormal K ei = outputNormal_loop K (csiParam ei) ei"

text \<open>The inner loop of \<^verbatim>\<open>output256\<close> over \<^verbatim>\<open>ei.csiParam[3:]\<close>.\<close>

fun output256_loop ::
  "'a::len word attribute_decls \<Rightarrow> string list \<Rightarrow> 'a word escapeInterpreter \<Rightarrow> error option \<times> 'a word escapeInterpreter" where
  "output256_loop K [] ei = (None, ei)"
| "output256_loop K (param # params) ei =
     (case Atoi param of
        None \<Rightarrow> (Some errCSIParseError, ei)
      | Some p \<Rightarrow> output256_loop K params
          (if p = 1 then ei\<lparr>curFgColor := curFgColor ei OR AttrBold K\<rparr>
           else if p = 4 then ei\<lparr>curFgColor := curFgColor ei OR AttrUnderline K\<rparr>
           else if p = 7 then ei\<lparr>curFgColor := curFgColor ei OR AttrReverse K\<rparr>
           else ei))"

text \<open>The body of \<^verbatim>\<open>output256\<close> after its two lines that take the mutex.\<close>

definition output256_body :: "'a::len word attribute_decls \<Rightarrow> 'a word escapeInterpreter \<Rightarrow> error option \<times> 'a word escapeInterpreter" where
  "output256_body K ei =
     (if length (csiParam ei) < 3 then outputNormal K ei
      else
        (case Atoi (csiParam ei ! 1) of
           None \<Rightarrow> (Some errCSIParseError, ei)
         | Some mode5 \<Rightarrow>
             (if mode5 \<noteq> 5 then outputNormal K ei
              else
                (case Atoi (csiParam ei ! 0) of
                   None \<Rightarrow> (Some errCSIParseError, ei)
                 | Some fgbg \<Rightarrow>
                     (case Atoi (csiParam ei ! 2) of
                        None \<Rightarrow> (Some errCSIParseError, ei)
                      | Some color \<Rightarrow>
                          (if fgbg = 38 then
                             output256_loop K (drop 3 (csiParam ei))
                               (ei\<lparr>curFgColor := Attribute (wrap_int (color + 1))\<rparr>)
                           else if fgbg = 48 then
                             (None, ei\<lparr>curBgColor := Attribute (wrap_int (color + 1))\<rparr>)
                           else (Some errCSIParseError, ei)))))))"

definition output256 ::
  "'a::len word attribute_decls \<Rightarrow> 'a word escapeInterpreter \<Rightarrow> (error option \<times> 'a word escapeInterpreter) outcome" where
  "output256 K = Lock_defer_Unlock (\<lambda>ei. Return (output256_body K ei))"

subsection \<open>parseOne\<close>

text \<open>
  The case \<^verbatim>\<open>stateParams\<close> of the switch of \<^verbatim>\<open>parseOne\<close>. The case \<^verbatim>\<open>stateCSI\<close> falls
  through into it. The result is \<^verbatim>\<open>(isEscape, err)\<close>, with \<open>None\<close> for a nil error.
\<close>

definition parseOne_stateParams ::
  "'a::len word attribute_decls \<Rightarrow> 'a word escapeInterpreter \<Rightarrow> rune \<Rightarrow>
   ((bool \<times> error option) \<times> 'a word escapeInterpreter) outcome" where
  "parseOne_stateParams K ei ch =
     (if (ch \<ge> rune CHR ''0'' \<and> ch \<le> rune CHR ''9'') \<or> ch = rune CHR ''?'' then
        (if csiParam ei = [] then Panic
         else Return ((True, None),
                ei\<lparr>csiParam := (csiParam ei)[length (csiParam ei) - 1 :=
                       csiParam ei ! (length (csiParam ei) - 1) @ string_of_rune ch]\<rparr>))
      else if ch = rune CHR '';'' then
        Return ((True, None), ei\<lparr>csiParam := csiParam ei @ ['''']\<rparr>)
      else if ch = rune CHR ''m'' then
        (case (case mode ei of
                 OutputNormal \<Rightarrow> Return (outputNormal K ei)
               | Output256 \<Rightarrow> output256 K ei
               | OutputOther \<Rightarrow> Return (None, ei)) of
           Deadlock \<Rightarrow> Deadlock
         | Panic \<Rightarrow> Panic
         | Return (err, ei') \<Rightarrow>
             if err \<noteq> None then Return ((False, Some errCSIParseError), ei')
             else Return ((True, None), ei'\<lparr>state := stateNone, csiParam := []\<rparr>))
      else if ch = rune CHR ''A'' \<or> ch = rune CHR ''B'' \<or> ch = rune CHR ''C'' \<or> ch = rune CHR ''D'' then
        (case csiParam ei of
           [] \<Rightarrow> Panic
         | p0 # _ \<Rightarrow>
             (case Atoi p0 of
                None \<Rightarrow> Return ((False, Some errCSIParseError), ei)
              | Some p \<Rightarrow>
                  Return ((True, None),
                    ei\<lparr>instruction := (instruction ei)\<lparr>kind := mapIndex directionMap ch, param1 := p\<rparr>,
                       state := stateNone, csiParam := []\<rparr>)))
      else if ch = rune CHR ''J'' then
        Return ((True, None),
          ei\<lparr>instruction := (instruction ei)\<lparr>kind := CLEAR_SCREEN\<rparr>,
             state := stateNone, csiParam := []\<rparr>)
      else if ch = rune CHR ''h'' then
        (case csiParam ei of
           [] \<Rightarrow> Panic
         | p0 # _ \<Rightarrow>
             if p0 = ''?25'' then Return ((True, None), ei\<lparr>state := stateNone, csiParam := []\<rparr>)
             else Return ((False, Some errCSIParseError), ei))
      else if ch = rune CHR ''l'' then
        (case csiParam ei of
           [] \<Rightarrow> Panic
         | p0 # _ \<Rightarrow>
             if p0 = ''?25'' then Return ((True, None), ei\<lparr>state := stateNone, csiParam := []\<rparr>)
             else Return ((False, Some errCSIParseError), ei))
      else Return ((False, Some errCSIParseError), ei))"

text \<open>The body of \<^verbatim>\<open>parseOne\<close> after its two lines that take the mutex.\<close>

definition parseOne_body ::
  "'a::len word attribute_decls \<Rightarrow> rune \<Rightarrow> 'a word escapeInterpreter \<Rightarrow>
   ((bool \<times> error option) \<times> 'a word escapeInterpreter) outcome" where
  "parseOne_body K ch ei0 =
     (if length (csiParam ei0) > 20 then Return ((False, Some errCSITooLong), ei0)
      else if length (csiParam ei0) > 0 \<and>
              length (csiParam ei0 ! (length (csiParam ei0) - 1)) > 255
        then Return ((False, Some errCSITooLong), ei0)
      else
        let ei = ei0\<lparr>curch := ch\<rparr> in
        case state ei of
          stateNone \<Rightarrow>
            if ch = 0x1b then Return ((True, None), ei\<lparr>state := stateEscape\<rparr>)
            else Return ((False, None), ei)
        | stateEscape \<Rightarrow>
            if ch = rune CHR ''['' then Return ((True, None), ei\<lparr>state := stateCSI\<rparr>)
            else Return ((False, Some errNotCSI), ei)
        | stateCSI \<Rightarrow>
            if ch \<ge> rune CHR ''0'' \<and> ch \<le> rune CHR ''9'' then
              parseOne_stateParams K (ei\<lparr>csiParam := csiParam ei @ [''''], state := stateParams\<rparr>) ch
            else if ch = rune CHR ''m'' then
              parseOne_stateParams K (ei\<lparr>csiParam := csiParam ei @ [''0''], state := stateParams\<rparr>) ch
            else if ch = rune CHR ''K'' then
              Return ((True, None),
                ei\<lparr>instruction := (instruction ei)\<lparr>kind := ERASE_TO_END_OF_LINE\<rparr>,
                   state := stateNone, csiParam := []\<rparr>)
            else if ch = rune CHR ''?'' then
              parseOne_stateParams K (ei\<lparr>csiParam := csiParam ei @ [''''], state := stateParams\<rparr>) ch
            else Return ((False, Some errCSIParseError), ei)
        | stateParams \<Rightarrow> parseOne_stateParams K ei ch)"

definition parseOne ::
  "'a::len word attribute_decls \<Rightarrow> 'a word escapeInterpreter \<Rightarrow> rune \<Rightarrow>
   ((bool \<times> error option) \<times> 'a word escapeInterpreter) outcome" where
  "parseOne K ei ch = Lock_defer_Unlock (parseOne_body K ch) ei"

subsection \<open>Input histories\<close>

text \<open>
  A caller feeding a sequence of runes, one call of \<^verbatim>\<open>parseOne\<close> each, whatever the calls
  return. The results of the calls are collected in order.
\<close>

fun feeds ::
  "'a::len word attribute_decls \<Rightarrow> 'a word escapeInterpreter \<Rightarrow> rune list \<Rightarrow>
   ((bool \<times> error option) list \<times> 'a word escapeInterpreter) outcome" where
  "feeds K ei [] = Return ([], ei)"
| "feeds K ei (ch # chs) =
     (case parseOne K ei ch of
        Deadlock \<Rightarrow> Deadlock
      | Panic \<Rightarrow> Panic
      | Return (r, ei') \<Rightarrow>
          (case feeds K ei' chs of
             Deadlock \<Rightarrow> Deadlock
           | Panic \<Rightarrow> Panic
           | Return (rs, ei'') \<Rightarrow> Return (r # rs, ei'')))"

subsection \<open>The loop of outputNormal on the pair of colours\<close>

text \<open>
  \<^verbatim>\<open>outputNormal\<close> reads and writes two fields only. \<open>basicParam\<close> is the switch of its
  loop body (the source's lines 248 to 266) as a function on the pair
  \<^verbatim>\<open>(curFgColor, curBgColor)\<close>, and \<open>basicResolve\<close> is the loop on that pair. Both are taken
  from the source, assignment by assignment: an assignment to \<^verbatim>\<open>curFgColor\<close> replaces the
  whole attribute, the flags in it included.
\<close>

definition basicParam ::
  "'a::len word attribute_decls \<Rightarrow> int \<Rightarrow> 'a word \<times> 'a word \<Rightarrow> 'a word \<times> 'a word" where
  "basicParam K code c =
     (if code \<in> {30..37} then (Attribute (code - 30 + 1), snd c)
      else if code = 39 then (ColorDefault K, snd c)
      else if code \<in> {40..47} then (fst c, Attribute (code - 40 + 1))
      else if code = 49 then (fst c, ColorDefault K)
      else if code = 1 then (fst c OR AttrBold K, snd c)
      else if code = 4 then (fst c OR AttrUnderline K, snd c)
      else if code = 7 then (fst c OR AttrReverse K, snd c)
      else if code = 0 then (ColorDefault K, ColorDefault K)
      else c)"

fun basicResolve ::
  "'a::len word attribute_decls \<Rightarrow> string list \<Rightarrow> 'a word \<times> 'a word \<Rightarrow>
   error option \<times> 'a word \<times> 'a word" where
  "basicResolve K [] c = (None, c)"
| "basicResolve K (s # ss) c =
     (case Atoi s of
        None \<Rightarrow> (Some errCSIParseError, c)
      | Some code \<Rightarrow> basicResolve K ss (basicParam K code c))"

text \<open>
  A numeric string: an optional sign and then one or more decimal digits. This is the
  words' notion, to be compared with what \<open>Atoi\<close> accepts. \<open>numericValue\<close> is the number
  that such a string denotes.
\<close>

fun numeric :: "string \<Rightarrow> bool" where
  "numeric [] = False"
| "numeric (c # cs) =
     (if c = CHR ''-'' \<or> c = CHR ''+'' then cs \<noteq> [] \<and> list_all isDigit cs
      else list_all isDigit (c # cs))"

fun numericValue :: "string \<Rightarrow> int" where
  "numericValue [] = 0"
| "numericValue (c # cs) =
     (if c = CHR ''-'' then - digitsValue cs
      else if c = CHR ''+'' then digitsValue cs
      else digitsValue (c # cs))"

subsection \<open>The attribute state as the specification has it\<close>

text \<open>
  The specification's data model: a colour slot for the foreground and one for the
  background, slot 0 being the terminal default, and the modifier flags Bold, Underline
  and Reverse, kept apart from the slots.
\<close>

record 'a attributes =
  fgSlot :: 'a
  bgSlot :: 'a
  isBold :: bool
  isUnderline :: bool
  isReverse :: bool

text \<open>
  The Basic strategy in the specification's words, one parameter code at a time: 30 to
  37 set the foreground slot, 39 makes the foreground the default, 40 to 47 set the
  background slot, 49 makes the background the default, 1, 4 and 7 set a modifier, 0 is
  the full reset with the modifiers cleared, and any other value is ignored. Only the
  code 0 is said to clear modifiers.
\<close>

definition specBasicParam :: "int \<Rightarrow> 'a::len word attributes \<Rightarrow> 'a word attributes" where
  "specBasicParam code a =
     (if code \<in> {30..37} then a\<lparr>fgSlot := Attribute (code - 30 + 1)\<rparr>
      else if code = 39 then a\<lparr>fgSlot := 0\<rparr>
      else if code \<in> {40..47} then a\<lparr>bgSlot := Attribute (code - 40 + 1)\<rparr>
      else if code = 49 then a\<lparr>bgSlot := 0\<rparr>
      else if code = 1 then a\<lparr>isBold := True\<rparr>
      else if code = 4 then a\<lparr>isUnderline := True\<rparr>
      else if code = 7 then a\<lparr>isReverse := True\<rparr>
      else if code = 0 then
        \<lparr>fgSlot = 0, bgSlot = 0, isBold = False, isUnderline = False, isReverse = False\<rparr>
      else a)"

text \<open>
  The table that the code turns out to implement, in the same data model. It differs
  from the specification's in the codes 30 to 37 and 39, which clear the three modifiers
  as well.
\<close>

definition basicEffect :: "int \<Rightarrow> 'a::len word attributes \<Rightarrow> 'a word attributes" where
  "basicEffect code a =
     (if code \<in> {30..37} then
        a\<lparr>fgSlot := Attribute (code - 30 + 1),
          isBold := False, isUnderline := False, isReverse := False\<rparr>
      else if code = 39 then
        a\<lparr>fgSlot := 0, isBold := False, isUnderline := False, isReverse := False\<rparr>
      else if code \<in> {40..47} then a\<lparr>bgSlot := Attribute (code - 40 + 1)\<rparr>
      else if code = 49 then a\<lparr>bgSlot := 0\<rparr>
      else if code = 1 then a\<lparr>isBold := True\<rparr>
      else if code = 4 then a\<lparr>isUnderline := True\<rparr>
      else if code = 7 then a\<lparr>isReverse := True\<rparr>
      else if code = 0 then
        \<lparr>fgSlot = 0, bgSlot = 0, isBold = False, isUnderline = False, isReverse = False\<rparr>
      else a)"

text \<open>
  Its iteration over the parameter strings in order: a string that \<open>Atoi\<close> rejects stops
  it with \<^verbatim>\<open>errCSIParseError\<close>, and what the strings before it did stays done.
\<close>

fun basicEffects ::
  "string list \<Rightarrow> 'a::len word attributes \<Rightarrow> error option \<times> 'a word attributes" where
  "basicEffects [] a = (None, a)"
| "basicEffects (s # ss) a =
     (case Atoi s of
        None \<Rightarrow> (Some errCSIParseError, a)
      | Some code \<Rightarrow> basicEffects ss (basicEffect code a))"

text \<open>
  How the pair \<^verbatim>\<open>(curFgColor, curBgColor)\<close> of the code holds that state: the flags are
  bits of the foreground attribute, and the slot is what remains when the flag bits are
  taken away.
\<close>

definition modifierBits :: "'a::len word attribute_decls \<Rightarrow> 'a word" where
  "modifierBits K = AttrBold K OR AttrUnderline K OR AttrReverse K"

definition unpackAttributes ::
  "'a::len word attribute_decls \<Rightarrow> 'a word \<times> 'a word \<Rightarrow> 'a word attributes" where
  "unpackAttributes K c =
     \<lparr>fgSlot = fst c AND NOT (modifierBits K),
      bgSlot = snd c AND NOT (modifierBits K),
      isBold = (fst c AND AttrBold K \<noteq> 0),
      isUnderline = (fst c AND AttrUnderline K \<noteq> 0),
      isReverse = (fst c AND AttrReverse K \<noteq> 0)\<rparr>"

text \<open>
  Modelled from the spec: the layout of the attribute declarations, which are not among
  the sources. The default colour is slot 0, the slot has (at least) the nine low bits,
  and the three modifier flags are bits above them, each flag with a bit of its own.
\<close>

definition declsLayout :: "'a::len word attribute_decls \<Rightarrow> bool" where
  "declsLayout K =
     (ColorDefault K = 0 \<and>
      AttrBold K AND mask 9 = 0 \<and> AttrUnderline K AND mask 9 = 0 \<and>
      AttrReverse K AND mask 9 = 0 \<and>
      AttrBold K \<noteq> 0 \<and> AttrUnderline K \<noteq> 0 \<and> AttrReverse K \<noteq> 0 \<and>
      AttrBold K AND AttrUnderline K = 0 \<and> AttrBold K AND AttrReverse K = 0 \<and>
      AttrUnderline K AND AttrReverse K = 0)"

text \<open>
  Modelled from the spec: one choice of the attribute declarations that escape.go takes
  from outside the sources, for concrete runs. The spec has slot 0 for the default
  colour, a colour slot of nine bits and the modifier flags in disjoint higher bits;
  here the attribute has 16 bits and the flags are bits 9, 10 and 11.
\<close>

definition exampleDecls :: "16 word attribute_decls" where
  "exampleDecls =
     \<lparr>ColorDefault = 0, AttrBold = 0x200, AttrUnderline = 0x400, AttrReverse = 0x800\<rparr>"

subsection \<open>Predicates and states used in the statements\<close>

text \<open>
  The two sanity checks at the head of \<^verbatim>\<open>parseOne\<close> pass: at most 20 parameters, and the
  last one (if there is one) has at most 255 bytes.
\<close>

definition withinBounds :: "string list \<Rightarrow> bool" where
  "withinBounds ps = (length ps \<le> 20 \<and> (ps = [] \<or> length (last ps) \<le> 255))"

text \<open>
  The classes of input that the switch of the case \<^verbatim>\<open>stateParams\<close> tells apart: the
  runes appended to a parameter (a digit or \<^verbatim>\<open>?\<close>), and the runes with a case of their own
  (\<^verbatim>\<open>; m A B C D J h l\<close>). Every other rune takes the default case.
\<close>

definition isParamRune :: "rune \<Rightarrow> bool" where
  "isParamRune ch = ((48 \<le> ch \<and> ch \<le> 57) \<or> ch = 63)"

definition isTerminator :: "rune \<Rightarrow> bool" where
  "isTerminator ch = (ch \<in> {59, 109, 65, 66, 67, 68, 74, 104, 108})"

text \<open>
  An interpreter in the middle of a sequence (after \<^verbatim>\<open>ESC [ 2\<close>), with colours set and an
  instruction latched that was not cleared.
\<close>

definition exampleParams :: "16 word escapeInterpreter" where
  "exampleParams =
     \<lparr>state = stateParams, curch = 50, csiParam = [''2''],
      curFgColor = 2, curBgColor = 5, mode = OutputNormal, mutex = False,
      instruction = \<lparr>kind = CLEAR_SCREEN, param1 = 0, param2 = 0\<rparr>\<rparr>"

text \<open>The Basic-mode interpreter after \<^verbatim>\<open>ESC [ ? 2 5\<close>, and after \<^verbatim>\<open>ESC [ ? 2 5 ; 1\<close>.\<close>

definition exampleShowCursor :: "16 word escapeInterpreter" where
  "exampleShowCursor =
     \<lparr>state = stateParams, curch = 53, csiParam = [''?25''],
      curFgColor = 0, curBgColor = 0, mode = OutputNormal, mutex = False,
      instruction = \<lparr>kind = NONE, param1 = 0, param2 = 0\<rparr>\<rparr>"

definition exampleShowCursor2 :: "16 word escapeInterpreter" where
  "exampleShowCursor2 =
     \<lparr>state = stateParams, curch = 49, csiParam = [''?25'', ''1''],
      curFgColor = 0, curBgColor = 0, mode = OutputNormal, mutex = False,
      instruction = \<lparr>kind = NONE, param1 = 0, param2 = 0\<rparr>\<rparr>"

text \<open>The Extended-mode interpreter after \<^verbatim>\<open>ESC [\<close>.\<close>

definition exampleCSI256 :: "16 word escapeInterpreter" where
  "exampleCSI256 =
     \<lparr>state = stateCSI, curch = 91, csiParam = [],
      curFgColor = 0, curBgColor = 0, mode = Output256, mutex = False,
      instruction = \<lparr>kind = NONE, param1 = 0, param2 = 0\<rparr>\<rparr>"

text \<open>
  Basic-mode interpreters about to receive \<^verbatim>\<open>m\<close>: after \<^verbatim>\<open>ESC [ 3 1 ; 1 ; 4 4\<close>, and after
  \<^verbatim>\<open>ESC [ 3 1 ; ?\<close>.
\<close>

definition exampleColours :: "16 word escapeInterpreter" where
  "exampleColours =
     \<lparr>state = stateParams, curch = 52, csiParam = [''31'', ''1'', ''44''],
      curFgColor = 0, curBgColor = 0, mode = OutputNormal, mutex = False,
      instruction = \<lparr>kind = NONE, param1 = 0, param2 = 0\<rparr>\<rparr>"

definition exampleBadParam :: "16 word escapeInterpreter" where
  "exampleBadParam =
     \<lparr>state = stateParams, curch = 63, csiParam = [''31'', ''?''],
      curFgColor = 0, curBgColor = 0, mode = OutputNormal, mutex = False,
      instruction = \<lparr>kind = NONE, param1 = 0, param2 = 0\<rparr>\<rparr>"

text \<open>The Extended-mode interpreter after \<^verbatim>\<open>ESC [ 3 8 ; 5 ; 1 9 6\<close>.\<close>

definition example256Params :: "16 word escapeInterpreter" where
  "example256Params =
     \<lparr>state = stateParams, curch = 54, csiParam = [''38'', ''5'', ''196''],
      curFgColor = 0, curBgColor = 0, mode = Output256, mutex = False,
      instruction = \<lparr>kind = NONE, param1 = 0, param2 = 0\<rparr>\<rparr>"

text \<open>
  The Basic-mode interpreter after \<^verbatim>\<open>ESC [ 1 ; 2 x\<close>, where the call for \<^verbatim>\<open>x\<close> returned
  \<^verbatim>\<open>errCSIParseError\<close>.
\<close>

definition exampleLostSeparator :: "16 word escapeInterpreter" where
  "exampleLostSeparator =
     \<lparr>state = stateParams, curch = 120, csiParam = [''1'', ''2''],
      curFgColor = 0, curBgColor = 0, mode = OutputNormal, mutex = False,
      instruction = \<lparr>kind = NONE, param1 = 0, param2 = 0\<rparr>\<rparr>"

text \<open>The Basic-mode interpreter after \<^verbatim>\<open>ESC [ 0\<close> and twenty \<^verbatim>\<open>;\<close>: 21 parameters.\<close>

definition exampleTwentyOne :: "16 word escapeInterpreter" where
  "exampleTwentyOne =
     \<lparr>state = stateParams, curch = 59,
      csiParam = [''0'', '''', '''', '''', '''', '''', '''', '''', '''', '''', '''',
                  '''', '''', '''', '''', '''', '''', '''', '''', '''', ''''],
      curFgColor = 0, curBgColor = 0, mode = OutputNormal, mutex = False,
      instruction = \<lparr>kind = NONE, param1 = 0, param2 = 0\<rparr>\<rparr>"

text \<open>
  What the code keeps the parameter storage within: at most 21 parameters, each of at
  most 256 bytes.
\<close>

definition storageBounded :: "string list \<Rightarrow> bool" where
  "storageBounded ps = (length ps \<le> 21 \<and> list_all (\<lambda>p. length p \<le> 256) ps)"

text \<open>
  A state between two calls: the mutex is free, and in state Params there is a
  parameter (the state is entered by appending one).
\<close>

definition betweenCalls :: "'a::len word escapeInterpreter \<Rightarrow> bool" where
  "betweenCalls ei = (\<not> mutex ei \<and> (if state ei = stateParams then csiParam ei \<noteq> [] else True))"

text \<open>
  The Basic-mode interpreter after \<^verbatim>\<open>ESC [ 2\<close> and twenty \<^verbatim>\<open>;\<close>, and after \<^verbatim>\<open>ESC [ 3 1 ; ?\<close>
  and nineteen \<^verbatim>\<open>;\<close>: 21 parameters each.
\<close>

definition exampleTwentyOneCursor :: "16 word escapeInterpreter" where
  "exampleTwentyOneCursor =
     \<lparr>state = stateParams, curch = 59,
      csiParam = [''2'', '''', '''', '''', '''', '''', '''', '''', '''', '''', '''',
                  '''', '''', '''', '''', '''', '''', '''', '''', '''', ''''],
      curFgColor = 0, curBgColor = 0, mode = OutputNormal, mutex = False,
      instruction = \<lparr>kind = NONE, param1 = 0, param2 = 0\<rparr>\<rparr>"

definition exampleTwentyOneBad :: "16 word escapeInterpreter" where
  "exampleTwentyOneBad =
     \<lparr>state = stateParams, curch = 59,
      csiParam = [''31'', ''?'', '''', '''', '''', '''', '''', '''', '''', '''', '''',
                  '''', '''', '''', '''', '''', '''', '''', '''', '''', ''''],
      curFgColor = 0, curBgColor = 0, mode = OutputNormal, mutex = False,
      instruction = \<lparr>kind = NONE, param1 = 0, param2 = 0\<rparr>\<rparr>"

text \<open>The Basic-mode interpreter after \<^verbatim>\<open>ESC [\<close> and twenty times \<^verbatim>\<open>9\<close>.\<close>

definition exampleHugeParam :: "16 word escapeInterpreter" where
  "exampleHugeParam =
     \<lparr>state = stateParams, curch = 57, csiParam = [''99999999999999999999''],
      curFgColor = 0, curBgColor = 0, mode = OutputNormal, mutex = False,
      instruction = \<lparr>kind = NONE, param1 = 0, param2 = 0\<rparr>\<rparr>"

text \<open>The bytes that \<^verbatim>\<open>parseOne\<close> stores in a parameter: the digits and \<^verbatim>\<open>?\<close>.\<close>

definition paramBytes :: "string list \<Rightarrow> bool" where
  "paramBytes ps = list_all (list_all (\<lambda>c. isDigit c \<or> c = CHR ''?'')) ps"

section \<open>Properties\<close>

subsection \<open>Evaluating the constants and the mutex\<close>

lemma rune_simps:
  "rune CHR ''0'' = 48" "rune CHR ''9'' = 57" "rune CHR ''?'' = 63" "rune CHR '';'' = 59"
  "rune CHR ''m'' = 109" "rune CHR ''A'' = 65" "rune CHR ''B'' = 66" "rune CHR ''C'' = 67"
  "rune CHR ''D'' = 68" "rune CHR ''J'' = 74" "rune CHR ''h'' = 104" "rune CHR ''l'' = 108"
  "rune CHR ''K'' = 75" "rune CHR ''['' = 91"
  by (simp_all add: rune_def)

lemma directionMap_simps:
  "mapIndex directionMap 65 = CURSOR_UP" "mapIndex directionMap 66 = CURSOR_DOWN"
  "mapIndex directionMap 67 = CURSOR_LEFT" "mapIndex directionMap 68 = CURSOR_RIGHT"
  by (simp_all add: mapIndex_def directionMap_def rune_simps)

lemma reset_free:
  "\<not> mutex ei \<Longrightarrow>
   reset K ei = Return ((), ei\<lparr>state := stateNone, curFgColor := ColorDefault K,
                              curBgColor := ColorDefault K, csiParam := []\<rparr>)"
  by (cases ei) (simp add: reset_def Lock_defer_Unlock_def)

subsection \<open>reset\<close>

text \<open>
  Claim C8. From every state in which the mutex is free (every state between two calls),
  \<^verbatim>\<open>reset()\<close> returns, it has no error result, and the state it leaves is Idle
  (\<open>stateNone\<close>) with both colours \<^verbatim>\<open>ColorDefault\<close> and no parameters. It is idempotent: a
  second \<^verbatim>\<open>reset()\<close> returns and leaves that same state.
\<close>

theorem reset_idle_idempotent:
  assumes "\<not> mutex ei"
  shows "\<exists>ei'. reset K ei = Return ((), ei') \<and>
           state ei' = stateNone \<and> curFgColor ei' = ColorDefault K \<and>
           curBgColor ei' = ColorDefault K \<and> csiParam ei' = [] \<and>
           reset K ei' = Return ((), ei')"
  using assms by (simp add: reset_free)

theorem reset_idle_idempotent_witness:
  "\<not> mutex exampleParams \<and>
   (\<exists>ei'. reset exampleDecls exampleParams = Return ((), ei') \<and>
           state ei' = stateNone \<and> curFgColor ei' = 0 \<and>
           curBgColor ei' = 0 \<and> csiParam ei' = [] \<and>
           reset exampleDecls ei' = Return ((), ei'))"
proof -
  have h: "\<not> mutex exampleParams" by (simp add: exampleParams_def)
  show ?thesis
    using h reset_idle_idempotent [OF h, of exampleDecls]
    by (simp add: exampleDecls_def)
qed

subsection \<open>The resolvers write the colours only\<close>

lemma outputNormal_case_basicParam:
  "outputNormal_case K p ei =
     ei\<lparr>curFgColor := fst (basicParam K p (curFgColor ei, curBgColor ei)),
        curBgColor := snd (basicParam K p (curFgColor ei, curBgColor ei))\<rparr>"
  by (cases ei) (simp add: outputNormal_case_def basicParam_def)

lemma outputNormal_loop_basicResolve:
  "outputNormal_loop K ps ei =
     (fst (basicResolve K ps (curFgColor ei, curBgColor ei)),
      ei\<lparr>curFgColor := fst (snd (basicResolve K ps (curFgColor ei, curBgColor ei))),
         curBgColor := snd (snd (basicResolve K ps (curFgColor ei, curBgColor ei)))\<rparr>)"
proof (induction ps arbitrary: ei)
  case Nil
  show ?case by simp
next
  case (Cons param ps)
  show ?case
  proof (cases "Atoi param")
    case None
    then show ?thesis by simp
  next
    case (Some p)
    show ?thesis
      using Some Cons.IH [of "outputNormal_case K p ei"]
      by (simp add: outputNormal_case_basicParam)
  qed
qed

lemma outputNormal_frame:
  "state (snd (outputNormal K ei)) = state ei"
  "curch (snd (outputNormal K ei)) = curch ei"
  "csiParam (snd (outputNormal K ei)) = csiParam ei"
  "mode (snd (outputNormal K ei)) = mode ei"
  "mutex (snd (outputNormal K ei)) = mutex ei"
  "instruction (snd (outputNormal K ei)) = instruction ei"
  by (simp_all add: outputNormal_def outputNormal_loop_basicResolve)

lemma output256_loop_frame:
  "state (snd (output256_loop K ps ei)) = state ei \<and>
   curch (snd (output256_loop K ps ei)) = curch ei \<and>
   csiParam (snd (output256_loop K ps ei)) = csiParam ei \<and>
   mode (snd (output256_loop K ps ei)) = mode ei \<and>
   mutex (snd (output256_loop K ps ei)) = mutex ei \<and>
   instruction (snd (output256_loop K ps ei)) = instruction ei \<and>
   curBgColor (snd (output256_loop K ps ei)) = curBgColor ei"
  by (induction ps arbitrary: ei) (simp_all split: option.splits)

lemma output256_body_frame:
  "state (snd (output256_body K ei)) = state ei"
  "curch (snd (output256_body K ei)) = curch ei"
  "csiParam (snd (output256_body K ei)) = csiParam ei"
  "mode (snd (output256_body K ei)) = mode ei"
  "mutex (snd (output256_body K ei)) = mutex ei"
  "instruction (snd (output256_body K ei)) = instruction ei"
  by (simp_all add: output256_body_def outputNormal_frame output256_loop_frame split: option.splits)

lemma output256_held: "mutex ei \<Longrightarrow> output256 K ei = Deadlock"
  by (simp add: output256_def Lock_defer_Unlock_def)

subsection \<open>parseOne_stateParams, one class of input at a time\<close>

lemma stateParams_param:
  "isParamRune ch \<Longrightarrow> parseOne_stateParams K ei ch =
     (if csiParam ei = [] then Panic
      else Return ((True, None),
             ei\<lparr>csiParam := (csiParam ei)[length (csiParam ei) - 1 :=
                    csiParam ei ! (length (csiParam ei) - 1) @ string_of_rune ch]\<rparr>))"
  by (simp add: parseOne_stateParams_def rune_simps isParamRune_def)

lemma stateParams_semicolon:
  "parseOne_stateParams K ei 59 = Return ((True, None), ei\<lparr>csiParam := csiParam ei @ ['''']\<rparr>)"
  by (simp add: parseOne_stateParams_def rune_simps)

lemma stateParams_m:
  "parseOne_stateParams K ei 109 =
     (case (case mode ei of
              OutputNormal \<Rightarrow> Return (outputNormal K ei)
            | Output256 \<Rightarrow> output256 K ei
            | OutputOther \<Rightarrow> Return (None, ei)) of
        Deadlock \<Rightarrow> Deadlock
      | Panic \<Rightarrow> Panic
      | Return (err, ei') \<Rightarrow>
          if err \<noteq> None then Return ((False, Some errCSIParseError), ei')
          else Return ((True, None), ei'\<lparr>state := stateNone, csiParam := []\<rparr>))"
  by (simp add: parseOne_stateParams_def rune_simps)

lemma stateParams_direction:
  "ch \<in> {65, 66, 67, 68} \<Longrightarrow> parseOne_stateParams K ei ch =
     (case csiParam ei of
        [] \<Rightarrow> Panic
      | p0 # _ \<Rightarrow>
          (case Atoi p0 of
             None \<Rightarrow> Return ((False, Some errCSIParseError), ei)
           | Some p \<Rightarrow>
               Return ((True, None),
                 ei\<lparr>instruction := (instruction ei)\<lparr>kind := mapIndex directionMap ch, param1 := p\<rparr>,
                    state := stateNone, csiParam := []\<rparr>)))"
  by (auto simp: parseOne_stateParams_def rune_simps)

lemma stateParams_J:
  "parseOne_stateParams K ei 74 =
     Return ((True, None),
       ei\<lparr>instruction := (instruction ei)\<lparr>kind := CLEAR_SCREEN\<rparr>,
          state := stateNone, csiParam := []\<rparr>)"
  by (simp add: parseOne_stateParams_def rune_simps)

lemma stateParams_h_l:
  "ch \<in> {104, 108} \<Longrightarrow> parseOne_stateParams K ei ch =
     (case csiParam ei of
        [] \<Rightarrow> Panic
      | p0 # _ \<Rightarrow>
          if p0 = ''?25'' then Return ((True, None), ei\<lparr>state := stateNone, csiParam := []\<rparr>)
          else Return ((False, Some errCSIParseError), ei))"
  by (auto simp: parseOne_stateParams_def rune_simps)

lemma stateParams_other:
  "\<not> isParamRune ch \<Longrightarrow> \<not> isTerminator ch \<Longrightarrow>
   parseOne_stateParams K ei ch = Return ((False, Some errCSIParseError), ei)"
  by (simp add: parseOne_stateParams_def rune_simps isParamRune_def isTerminator_def)

lemma rune_classes:
  obtains (param) "isParamRune ch"
  | (semicolon) "ch = 59" | (m) "ch = 109" | (direction) "ch \<in> {65, 66, 67, 68}"
  | (J) "ch = 74" | (h_l) "ch \<in> {104, 108}"
  | (other) "\<not> isParamRune ch" "\<not> isTerminator ch"
  unfolding isTerminator_def by auto

subsection \<open>parseOne, unfolded\<close>

text \<open>The body once the sanity checks have passed, with the \<open>let\<close> expanded.\<close>

lemma parseOne_body_within:
  assumes "withinBounds (csiParam ei)"
  shows "parseOne_body K ch ei =
    (case state ei of
       stateNone \<Rightarrow>
         if ch = 27 then Return ((True, None), ei\<lparr>curch := ch, state := stateEscape\<rparr>)
         else Return ((False, None), ei\<lparr>curch := ch\<rparr>)
     | stateEscape \<Rightarrow>
         if ch = 91 then Return ((True, None), ei\<lparr>curch := ch, state := stateCSI\<rparr>)
         else Return ((False, Some errNotCSI), ei\<lparr>curch := ch\<rparr>)
     | stateCSI \<Rightarrow>
         if (48 \<le> ch \<and> ch \<le> 57) \<or> ch = 63 then
           parseOne_stateParams K
             (ei\<lparr>curch := ch, csiParam := csiParam ei @ [''''], state := stateParams\<rparr>) ch
         else if ch = 109 then
           parseOne_stateParams K
             (ei\<lparr>curch := ch, csiParam := csiParam ei @ [''0''], state := stateParams\<rparr>) ch
         else if ch = 75 then
           Return ((True, None),
             ei\<lparr>curch := ch, instruction := (instruction ei)\<lparr>kind := ERASE_TO_END_OF_LINE\<rparr>,
                state := stateNone, csiParam := []\<rparr>)
         else Return ((False, Some errCSIParseError), ei\<lparr>curch := ch\<rparr>)
     | stateParams \<Rightarrow> parseOne_stateParams K (ei\<lparr>curch := ch\<rparr>) ch)"
proof (cases "csiParam ei = []")
  case True
  then show ?thesis
    by (auto simp: parseOne_body_def Let_def rune_simps split: escapeState.splits)
next
  case False
  then have "\<not> 255 < length (csiParam ei ! (length (csiParam ei) - Suc 0))"
    using assms by (simp add: withinBounds_def last_conv_nth)
  moreover have "\<not> 20 < length (csiParam ei)"
    using assms by (simp add: withinBounds_def)
  ultimately show ?thesis
    by (auto simp: parseOne_body_def Let_def rune_simps split: escapeState.splits)
qed

lemma parseOne_body_beyond:
  "\<not> withinBounds (csiParam ei) \<Longrightarrow>
   parseOne_body K ch ei = Return ((False, Some errCSITooLong), ei)"
  by (auto simp: parseOne_body_def withinBounds_def last_conv_nth)

lemma parseOne_free:
  "\<not> mutex ei \<Longrightarrow> parseOne K ei ch =
     (case parseOne_body K ch (ei\<lparr>mutex := True\<rparr>) of
        Deadlock \<Rightarrow> Deadlock | Panic \<Rightarrow> Panic
      | Return (r, ei') \<Rightarrow> Return (r, ei'\<lparr>mutex := False\<rparr>))"
  by (simp add: parseOne_def Lock_defer_Unlock_def)

lemma parseOne_Params:
  assumes "\<not> mutex ei" "state ei = stateParams" "withinBounds (csiParam ei)"
  shows "parseOne K ei ch =
     (case parseOne_stateParams K (ei\<lparr>mutex := True, curch := ch\<rparr>) ch of
        Deadlock \<Rightarrow> Deadlock | Panic \<Rightarrow> Panic
      | Return (r, ei') \<Rightarrow> Return (r, ei'\<lparr>mutex := False\<rparr>))"
  using assms by (simp add: parseOne_free parseOne_body_within)

lemma relock:
  "\<not> mutex ei \<Longrightarrow> ei\<lparr>mutex := True, curch := ch, mutex := False\<rparr> = ei\<lparr>curch := ch\<rparr>"
  "\<not> mutex ei \<Longrightarrow> ei\<lparr>mutex := True, curch := ch, state := s, csiParam := ps, mutex := False\<rparr>
     = ei\<lparr>curch := ch, state := s, csiParam := ps\<rparr>"
  "\<not> mutex ei \<Longrightarrow>
   ei\<lparr>mutex := True, curch := ch, instruction := i, state := s, csiParam := ps, mutex := False\<rparr>
     = ei\<lparr>curch := ch, instruction := i, state := s, csiParam := ps\<rparr>"
  by (cases ei; simp)+

subsection \<open>No branch of parseOne writes the kind NONE\<close>

lemma parseOne_stateParams_kind:
  assumes "parseOne_stateParams K ei ch = Return (r, ei')" "kind (instruction ei') = NONE"
  shows "kind (instruction ei) = NONE"
proof (cases ch rule: rune_classes)
  case param
  with assms show ?thesis by (auto simp: stateParams_param split: if_splits)
next
  case semicolon
  with assms show ?thesis by (auto simp: stateParams_semicolon)
next
  case m
  have n: "instruction (snd (outputNormal K ei)) = instruction ei"
    by (rule outputNormal_frame)
  have x: "instruction (snd (output256_body K (ei\<lparr>mutex := True\<rparr>))) = instruction ei"
    by (simp add: output256_body_frame)
  show ?thesis
  proof (cases "mode ei")
    case OutputNormal
    with assms m n show ?thesis
      by (cases "outputNormal K ei") (auto simp: stateParams_m split: if_splits)
  next
    case Output256
    with assms m x show ?thesis
      by (cases "output256_body K (ei\<lparr>mutex := True\<rparr>)")
         (auto simp: stateParams_m output256_def Lock_defer_Unlock_def split: if_splits)
  next
    case OutputOther
    with assms m show ?thesis by (auto simp: stateParams_m)
  qed
next
  case direction
  with assms show ?thesis
    by (auto simp: stateParams_direction directionMap_simps NONE_def CURSOR_UP_def CURSOR_DOWN_def
          CURSOR_LEFT_def CURSOR_RIGHT_def split: list.splits option.splits)
next
  case J
  with assms show ?thesis by (auto simp: stateParams_J NONE_def CLEAR_SCREEN_def)
next
  case h_l
  with assms show ?thesis
    by (auto simp: stateParams_h_l [OF h_l] split: list.splits if_splits)
next
  case other
  with assms show ?thesis by (auto simp: stateParams_other)
qed

lemma parseOne_body_kind:
  assumes "parseOne_body K ch ei = Return (r, ei')" "kind (instruction ei') = NONE"
  shows "kind (instruction ei) = NONE"
proof (cases "withinBounds (csiParam ei)")
  case False
  with assms show ?thesis by (simp add: parseOne_body_beyond)
next
  case True
  note body = parseOne_body_within [OF True]
  show ?thesis
  proof (cases "state ei")
    case stateNone
    with assms show ?thesis unfolding body by (auto split: if_splits)
  next
    case stateEscape
    with assms show ?thesis unfolding body by (auto split: if_splits)
  next
    case stateCSI
    with assms show ?thesis unfolding body
      by (auto simp: ERASE_TO_END_OF_LINE_def NONE_def
        split: if_splits dest!: parseOne_stateParams_kind [unfolded NONE_def])
  next
    case stateParams
    with assms show ?thesis unfolding body
      by (auto dest!: parseOne_stateParams_kind)
  qed
qed

lemma parseOne_kind:
  assumes "parseOne K ei ch = Return (r, ei')" "kind (instruction ei') = NONE"
  shows "kind (instruction ei) = NONE"
proof (cases "mutex ei")
  case True
  with assms show ?thesis by (simp add: parseOne_def Lock_defer_Unlock_def)
next
  case False
  obtain ei1 where 1: "parseOne_body K ch (ei\<lparr>mutex := True\<rparr>) = Return (r, ei1)"
    and 2: "ei' = ei1\<lparr>mutex := False\<rparr>"
    using assms(1) False
    by (auto simp: parseOne_free split: outcome.splits)
  have "kind (instruction ei1) = NONE"
    using assms(2) 2 by simp
  from parseOne_body_kind [OF 1 this] show ?thesis by simp
qed

lemma string_of_rune_simps:
  "string_of_rune 48 = ''0''" "string_of_rune 49 = ''1''" "string_of_rune 50 = ''2''"
  "string_of_rune 51 = ''3''" "string_of_rune 52 = ''4''" "string_of_rune 53 = ''5''"
  "string_of_rune 54 = ''6''" "string_of_rune 55 = ''7''" "string_of_rune 56 = ''8''"
  "string_of_rune 57 = ''9''" "string_of_rune 63 = ''?''"
  by (simp_all add: string_of_rune_def char_of_def)

subsection \<open>The instruction latch\<close>

lemma runes_free:
  "\<not> mutex ei \<Longrightarrow> \<exists>rs. runes ei = Return (rs, ei)"
  by (cases ei) (simp add: runes_def Lock_defer_Unlock_def)

lemma runes_state:
  "runes ei = Return (rs, ei') \<Longrightarrow> ei' = ei"
  by (cases ei) (auto simp: runes_def Lock_defer_Unlock_def split: if_splits)

text \<open>
  Claim C10. \<^verbatim>\<open>reset()\<close> leaves the instruction latch as it was, so an instruction latched
  before and not cleared is still there afterwards. \<^verbatim>\<open>instructionRead()\<close> sets the kind of
  the latch to \<^verbatim>\<open>NONE\<close> and changes no other field, neither of the interpreter nor of the
  instruction. Nothing else sets the kind to \<^verbatim>\<open>NONE\<close>: when it is \<^verbatim>\<open>NONE\<close> after a
  \<^verbatim>\<open>parseOne\<close> it was \<^verbatim>\<open>NONE\<close> before, and \<^verbatim>\<open>runes()\<close> returns the state it was given.
\<close>

theorem instruction_latch_frame:
  "(\<not> mutex ei \<longrightarrow>
      (\<exists>ei'. reset K ei = Return ((), ei') \<and> instruction ei' = instruction ei)) \<and>
   kind (instruction (instructionRead ei)) = NONE \<and>
   param1 (instruction (instructionRead ei)) = param1 (instruction ei) \<and>
   param2 (instruction (instructionRead ei)) = param2 (instruction ei) \<and>
   state (instructionRead ei) = state ei \<and>
   curch (instructionRead ei) = curch ei \<and>
   csiParam (instructionRead ei) = csiParam ei \<and>
   curFgColor (instructionRead ei) = curFgColor ei \<and>
   curBgColor (instructionRead ei) = curBgColor ei \<and>
   mode (instructionRead ei) = mode ei \<and>
   mutex (instructionRead ei) = mutex ei \<and>
   (\<forall>ch r ei'. parseOne K ei ch = Return (r, ei') \<and> kind (instruction ei') = NONE
       \<longrightarrow> kind (instruction ei) = NONE) \<and>
   (\<forall>rs ei'. runes ei = Return (rs, ei') \<longrightarrow> ei' = ei)"
proof -
  have "\<not> mutex ei \<longrightarrow>
      (\<exists>ei'. reset K ei = Return ((), ei') \<and> instruction ei' = instruction ei)"
    by (simp add: reset_free)
  moreover have "\<forall>ch r ei'. parseOne K ei ch = Return (r, ei') \<and> kind (instruction ei') = NONE
       \<longrightarrow> kind (instruction ei) = NONE"
    using parseOne_kind by blast
  moreover have "\<forall>rs ei'. runes ei = Return (rs, ei') \<longrightarrow> ei' = ei"
    using runes_state by blast
  ultimately show ?thesis
    by (simp add: instructionRead_def)
qed

theorem instruction_latch_frame_witness:
  "\<not> mutex exampleParams \<and>
   reset exampleDecls exampleParams =
     Return ((), exampleParams\<lparr>state := stateNone, curFgColor := 0, curBgColor := 0, csiParam := []\<rparr>) \<and>
   kind (instruction exampleParams) = CLEAR_SCREEN \<and>
   kind (instruction (instructionRead exampleParams)) = NONE \<and>
   parseOne exampleDecls exampleShowCursor 104 =
     Return ((True, None), exampleShowCursor\<lparr>curch := 104, state := stateNone, csiParam := []\<rparr>) \<and>
   kind (instruction exampleShowCursor) = NONE \<and>
   runes exampleParams = Return ([27, 91, 50, 50], exampleParams)"
proof -
  have r: "reset exampleDecls exampleParams =
     Return ((), exampleParams\<lparr>state := stateNone, curFgColor := 0, curBgColor := 0, csiParam := []\<rparr>)"
    by (simp add: reset_def Lock_defer_Unlock_def exampleParams_def exampleDecls_def)
  have p: "parseOne exampleDecls exampleShowCursor 104 =
     Return ((True, None), exampleShowCursor\<lparr>curch := 104, state := stateNone, csiParam := []\<rparr>)"
    by (simp add: parseOne_def Lock_defer_Unlock_def parseOne_body_def parseOne_stateParams_def
        exampleShowCursor_def rune_simps)
  have q: "runes exampleParams = Return ([27, 91, 50, 50], exampleParams)"
    by (simp add: runes_def Lock_defer_Unlock_def exampleParams_def runes_of_string_def rune_simps)
  have k: "kind (instruction (exampleShowCursor\<lparr>curch := 104, state := stateNone, csiParam := []\<rparr>)) = NONE"
    by (simp add: exampleShowCursor_def)
  show ?thesis
    using instruction_latch_frame [of exampleParams exampleDecls]
      instruction_latch_frame [of exampleShowCursor exampleDecls] r p q k
    by (simp add: exampleParams_def)
qed

subsection \<open>The cursor terminators\<close>

text \<open>
  Claim C7, as the code has it. In state Params, with the parameter list that this
  state always has and with the sanity checks passed (at most 20 parameters, the last
  of at most 255 bytes), feeding \<^verbatim>\<open>A\<close>, \<^verbatim>\<open>B\<close>, \<^verbatim>\<open>C\<close> or \<^verbatim>\<open>D\<close> parses the first
  parameter with \<^verbatim>\<open>Atoi\<close>. If that fails the call returns \<^verbatim>\<open>(false, errCSIParseError)\<close> and
  only \<^verbatim>\<open>curch\<close> has changed. Otherwise it returns \<^verbatim>\<open>(true, nil)\<close>, the latch holds the kind
  \<^verbatim>\<open>CURSOR_UP\<close>, \<^verbatim>\<open>CURSOR_DOWN\<close>, \<^verbatim>\<open>CURSOR_LEFT\<close>, \<^verbatim>\<open>CURSOR_RIGHT\<close> respectively (so \<^verbatim>\<open>C\<close> is Left
  and \<^verbatim>\<open>D\<close> is Right) with the count as \<^verbatim>\<open>param1\<close>, the state is Idle and the parameter
  list is empty. In particular \<^verbatim>\<open>ESC [ 2 A\<close>, fed to a new interpreter of any mode,
  latches \<^verbatim>\<open>CURSOR_UP\<close> with count 2.
\<close>

theorem parseOne_cursor_latch:
  assumes "\<not> mutex ei" and "state ei = stateParams" and "withinBounds (csiParam ei)"
    and "csiParam ei = p0 # ps"
    and "(ch, k) \<in> {(rune CHR ''A'', CURSOR_UP), (rune CHR ''B'', CURSOR_DOWN),
                     (rune CHR ''C'', CURSOR_LEFT), (rune CHR ''D'', CURSOR_RIGHT)}"
  shows "parseOne K ei ch =
     (case Atoi p0 of
        None \<Rightarrow> Return ((False, Some errCSIParseError), ei\<lparr>curch := ch\<rparr>)
      | Some n \<Rightarrow> Return ((True, None),
          ei\<lparr>curch := ch, instruction := (instruction ei)\<lparr>kind := k, param1 := n\<rparr>,
             state := stateNone, csiParam := []\<rparr>)) \<and>
    feeds K (newEscapeInterpreter K m) [0x1b, rune CHR ''['', rune CHR ''2'', rune CHR ''A''] =
      Return ([(True, None), (True, None), (True, None), (True, None)],
        (newEscapeInterpreter K m)
          \<lparr>curch := rune CHR ''A'',
           instruction := \<lparr>kind = CURSOR_UP, param1 = 2, param2 = 0\<rparr>\<rparr>)"
proof -
  have ch: "ch \<in> {65, 66, 67, 68}" and k: "k = mapIndex directionMap ch"
    using assms(5) by (auto simp: rune_simps directionMap_simps)
  have 1: "parseOne K ei ch =
     (case Atoi p0 of
        None \<Rightarrow> Return ((False, Some errCSIParseError), ei\<lparr>curch := ch\<rparr>)
      | Some n \<Rightarrow> Return ((True, None),
          ei\<lparr>curch := ch, instruction := (instruction ei)\<lparr>kind := k, param1 := n\<rparr>,
             state := stateNone, csiParam := []\<rparr>))"
    unfolding k
    using assms(1,4)
    by (simp add: parseOne_Params [OF assms(1-3)] stateParams_direction [OF ch] relock
        split: option.splits)
  have a: "Atoi ''2'' = Some 2"
    by (simp add: Atoi_def isDigit_def digitsValue_def intSize_def)
  have 2: "feeds K (newEscapeInterpreter K m) [0x1b, rune CHR ''['', rune CHR ''2'', rune CHR ''A''] =
      Return ([(True, None), (True, None), (True, None), (True, None)],
        (newEscapeInterpreter K m)
          \<lparr>curch := rune CHR ''A'',
           instruction := \<lparr>kind = CURSOR_UP, param1 = 2, param2 = 0\<rparr>\<rparr>)"
    by (simp add: newEscapeInterpreter_def parseOne_def Lock_defer_Unlock_def parseOne_body_def
        parseOne_stateParams_def Let_def rune_def string_of_rune_simps a directionMap_simps)
  from 1 2 show ?thesis by simp
qed

theorem parseOne_cursor_latch_witness:
  "\<not> mutex exampleParams \<and> state exampleParams = stateParams \<and>
   withinBounds (csiParam exampleParams) \<and> csiParam exampleParams = [''2''] \<and>
   parseOne exampleDecls exampleParams (rune CHR ''C'') =
     Return ((True, None),
       exampleParams\<lparr>curch := rune CHR ''C'',
         instruction := \<lparr>kind = CURSOR_LEFT, param1 = 2, param2 = 0\<rparr>,
         state := stateNone, csiParam := []\<rparr>)"
proof -
  have h: "\<not> mutex exampleParams" "state exampleParams = stateParams"
    "withinBounds (csiParam exampleParams)" "csiParam exampleParams = ''2'' # []"
    by (simp_all add: exampleParams_def withinBounds_def)
  have c: "(rune CHR ''C'', CURSOR_LEFT) \<in> {(rune CHR ''A'', CURSOR_UP), (rune CHR ''B'', CURSOR_DOWN),
                     (rune CHR ''C'', CURSOR_LEFT), (rune CHR ''D'', CURSOR_RIGHT)}"
    by simp
  have a: "Atoi ''2'' = Some 2"
    by (simp add: Atoi_def isDigit_def digitsValue_def intSize_def)
  show ?thesis
    using h parseOne_cursor_latch [OF h c, where K = exampleDecls and m = OutputNormal] a
    by (simp add: exampleParams_def)
qed

subsection \<open>The terminators h and l\<close>

text \<open>
  Claim C4, as the code has it. In state Params (with its parameter list, within the
  bounds of the sanity checks), feeding \<^verbatim>\<open>h\<close> or \<^verbatim>\<open>l\<close> looks at the first parameter only. If
  it is the string \<^verbatim>\<open>?25\<close> the call returns \<^verbatim>\<open>(true, nil)\<close>, the state is Idle, the
  parameter list is empty, and neither a colour nor the instruction latch has changed;
  whatever parameters follow the first are ignored. If the first parameter is any other
  string the call returns \<^verbatim>\<open>(false, errCSIParseError)\<close> and only \<^verbatim>\<open>curch\<close> has changed.
\<close>

theorem parseOne_show_hide_cursor:
  assumes "\<not> mutex ei" and "state ei = stateParams" and "withinBounds (csiParam ei)"
    and "csiParam ei = p0 # ps"
    and "ch \<in> {rune CHR ''h'', rune CHR ''l''}"
  shows "parseOne K ei ch =
     (if p0 = ''?25''
      then Return ((True, None), ei\<lparr>curch := ch, state := stateNone, csiParam := []\<rparr>)
      else Return ((False, Some errCSIParseError), ei\<lparr>curch := ch\<rparr>))"
proof -
  have ch: "ch \<in> {104, 108}"
    using assms(5) by (simp add: rune_simps)
  show ?thesis
    using assms(1,4)
    by (simp add: parseOne_Params [OF assms(1-3)] stateParams_h_l [OF ch] relock)
qed

theorem parseOne_show_hide_cursor_witness:
  "\<not> mutex exampleShowCursor \<and> state exampleShowCursor = stateParams \<and>
   withinBounds (csiParam exampleShowCursor) \<and> csiParam exampleShowCursor = [''?25''] \<and>
   parseOne exampleDecls exampleShowCursor (rune CHR ''l'') =
     Return ((True, None),
       exampleShowCursor\<lparr>curch := rune CHR ''l'', state := stateNone, csiParam := []\<rparr>)"
proof -
  have h: "\<not> mutex exampleShowCursor" "state exampleShowCursor = stateParams"
    "withinBounds (csiParam exampleShowCursor)" "csiParam exampleShowCursor = ''?25'' # []"
    by (simp_all add: exampleShowCursor_def withinBounds_def)
  have c: "rune CHR ''l'' \<in> {rune CHR ''h'', rune CHR ''l''}"
    by simp
  show ?thesis
    using h parseOne_show_hide_cursor [OF h c, where K = exampleDecls]
    by simp
qed

text \<open>
  The claim as stated fails: after \<^verbatim>\<open>ESC [ ? 2 5 ; 1\<close> the parameter list is \<^verbatim>\<open>?25\<close>, \<^verbatim>\<open>1\<close>, not
  the single parameter \<^verbatim>\<open>?25\<close>, and feeding \<^verbatim>\<open>h\<close> succeeds all the same.
\<close>

theorem parseOne_show_cursor_counterexample:
  "feeds exampleDecls (newEscapeInterpreter exampleDecls OutputNormal)
     (0x1b # map rune ''[?25;1'') =
     Return ([(True, None), (True, None), (True, None), (True, None), (True, None),
              (True, None), (True, None)], exampleShowCursor2) \<and>
   csiParam exampleShowCursor2 = [''?25'', ''1''] \<and>
   csiParam exampleShowCursor2 \<noteq> [''?25''] \<and>
   parseOne exampleDecls exampleShowCursor2 (rune CHR ''h'') =
     Return ((True, None),
       exampleShowCursor2\<lparr>curch := rune CHR ''h'', state := stateNone, csiParam := []\<rparr>)"
  by (simp add: newEscapeInterpreter_def parseOne_def Lock_defer_Unlock_def parseOne_body_def
      parseOne_stateParams_def Let_def rune_def string_of_rune_simps exampleShowCursor2_def
      exampleDecls_def NONE_def)

subsection \<open>The terminator m in Extended mode\<close>

text \<open>
  \<^verbatim>\<open>parseOne\<close> calls \<^verbatim>\<open>output256\<close> while it holds the mutex, and the first statement of
  \<^verbatim>\<open>output256\<close> locks the same mutex.
\<close>

lemma stateParams_m_Output256:
  "mode ei = Output256 \<Longrightarrow> mutex ei \<Longrightarrow> parseOne_stateParams K ei 109 = Deadlock"
  by (simp add: stateParams_m output256_held)

text \<open>
  Claim C2, where the code departs from it. In mode \<^verbatim>\<open>Output256\<close>, in state CSI or
  Params and with the sanity checks passed, the call of \<^verbatim>\<open>parseOne\<close> with \<^verbatim>\<open>m\<close> never
  returns.
\<close>

theorem parseOne_m_Output256_deadlock:
  assumes "\<not> mutex ei" and "mode ei = Output256"
    and "state ei = stateCSI \<or> state ei = stateParams"
    and "withinBounds (csiParam ei)"
  shows "parseOne K ei (rune CHR ''m'') = Deadlock"
proof -
  have w: "withinBounds (csiParam (ei\<lparr>mutex := True\<rparr>))"
    using assms(4) by simp
  show ?thesis
    using assms(1,2,3)
    by (auto simp: parseOne_free parseOne_body_within [OF w] rune_simps stateParams_m_Output256)
qed

theorem parseOne_m_Output256_deadlock_witness:
  "\<not> mutex exampleCSI256 \<and> mode exampleCSI256 = Output256 \<and>
   state exampleCSI256 = stateCSI \<and> withinBounds (csiParam exampleCSI256) \<and>
   feeds exampleDecls (newEscapeInterpreter exampleDecls Output256) [0x1b, rune CHR ''[''] =
     Return ([(True, None), (True, None)], exampleCSI256) \<and>
   parseOne exampleDecls exampleCSI256 (rune CHR ''m'') = Deadlock"
proof -
  have h: "\<not> mutex exampleCSI256" "mode exampleCSI256 = Output256"
    "state exampleCSI256 = stateCSI \<or> state exampleCSI256 = stateParams"
    "withinBounds (csiParam exampleCSI256)"
    by (simp_all add: exampleCSI256_def withinBounds_def)
  have f: "feeds exampleDecls (newEscapeInterpreter exampleDecls Output256) [0x1b, rune CHR ''[''] =
     Return ([(True, None), (True, None)], exampleCSI256)"
    by (simp add: newEscapeInterpreter_def parseOne_def Lock_defer_Unlock_def parseOne_body_def
        Let_def rune_def exampleCSI256_def exampleDecls_def NONE_def)
  have s: "state exampleCSI256 = stateCSI"
    by (simp add: exampleCSI256_def)
  have d: "parseOne exampleDecls exampleCSI256 (rune CHR ''m'') = Deadlock"
    by (rule parseOne_m_Output256_deadlock [OF h])
  show ?thesis
    using h(1,2,4) s f d by blast
qed

text \<open>
  Every other call returns: from a state between two calls (mutex free, and a parameter
  list that is not empty in state Params), \<^verbatim>\<open>parseOne\<close> returns unless the mode is
  \<^verbatim>\<open>Output256\<close> and the rune is \<^verbatim>\<open>m\<close>.
\<close>

lemma parseOne_stateParams_returns:
  assumes "csiParam ei \<noteq> []" and "mode ei \<noteq> Output256 \<or> ch \<noteq> 109"
  shows "\<exists>r ei'. parseOne_stateParams K ei ch = Return (r, ei')"
proof (cases ch rule: rune_classes)
  case param
  with assms show ?thesis by (auto simp: stateParams_param)
next
  case semicolon
  then show ?thesis by (auto simp: stateParams_semicolon)
next
  case m
  with assms show ?thesis
    by (cases "mode ei"; cases "outputNormal K ei") (auto simp: stateParams_m)
next
  case direction
  with assms show ?thesis
    by (auto simp: stateParams_direction [OF direction] split: list.splits option.splits)
next
  case J
  then show ?thesis by (auto simp: stateParams_J)
next
  case h_l
  with assms show ?thesis
    by (auto simp: stateParams_h_l [OF h_l] split: list.splits)
next
  case other
  then show ?thesis by (auto simp: stateParams_other)
qed

lemma parseOne_body_returns:
  assumes "state ei = stateParams \<Longrightarrow> csiParam ei \<noteq> []"
    and "mode ei \<noteq> Output256 \<or> ch \<noteq> 109"
  shows "\<exists>r ei'. parseOne_body K ch ei = Return (r, ei')"
proof (cases "withinBounds (csiParam ei)")
  case False
  then show ?thesis by (auto simp: parseOne_body_beyond)
next
  case True
  show ?thesis
  proof (cases "state ei")
    case stateNone
    then show ?thesis by (auto simp: parseOne_body_within [OF True])
  next
    case stateEscape
    then show ?thesis by (auto simp: parseOne_body_within [OF True])
  next
    case stateCSI
    have "\<And>s. \<exists>r ei'. parseOne_stateParams K
        (ei\<lparr>curch := ch, csiParam := csiParam ei @ [s], state := stateParams\<rparr>) ch = Return (r, ei')"
      using assms(2) by (intro parseOne_stateParams_returns) simp_all
    with stateCSI show ?thesis
      by (auto simp: parseOne_body_within [OF True])
  next
    case stateParams
    have "\<exists>r ei'. parseOne_stateParams K (ei\<lparr>curch := ch\<rparr>) ch = Return (r, ei')"
      using assms stateParams by (intro parseOne_stateParams_returns) simp_all
    with stateParams show ?thesis
      by (simp add: parseOne_body_within [OF True])
  qed
qed

lemma parseOne_returns:
  assumes "\<not> mutex ei" and "state ei = stateParams \<Longrightarrow> csiParam ei \<noteq> []"
    and "mode ei \<noteq> Output256 \<or> ch \<noteq> 109"
  shows "\<exists>r ei'. parseOne K ei ch = Return (r, ei')"
proof -
  have "\<exists>r ei'. parseOne_body K ch (ei\<lparr>mutex := True\<rparr>) = Return (r, ei')"
    using assms(2,3) by (intro parseOne_body_returns) simp_all
  then show ?thesis
    using assms(1) by (auto simp: parseOne_free)
qed

subsection \<open>Atoi and numeric strings\<close>

lemma not_numeric_Atoi: "\<not> numeric s \<Longrightarrow> Atoi s = None"
  by (cases s) (auto simp: Atoi_def Let_def)

lemma digitsValue_snoc:
  "digitsValue (ds @ [c]) = digitsValue ds * 10 + (of_char c - 48)"
  by (simp add: digitsValue_def)

lemma isDigit_value: "isDigit c \<Longrightarrow> 0 \<le> (of_char c :: int) - 48 \<and> (of_char c :: int) - 48 \<le> 9"
proof -
  assume "isDigit c"
  then have "48 \<le> (of_char c :: nat)" and "(of_char c :: nat) \<le> 57"
    by (simp_all add: isDigit_def)
  then have "48 \<le> int (of_char c)" and "int (of_char c) \<le> 57"
    by linarith+
  moreover have "int (of_char c) = of_char c"
    by (rule of_nat_of_char)
  ultimately show ?thesis
    by simp
qed

lemma digitsValue_bounds:
  "list_all isDigit ds \<Longrightarrow> 0 \<le> digitsValue ds \<and> digitsValue ds < 10 ^ length ds"
proof (induction ds rule: rev_induct)
  case Nil
  show ?case by (simp add: digitsValue_def)
next
  case (snoc c ds)
  then have ih: "0 \<le> digitsValue ds" "digitsValue ds < 10 ^ length ds"
    and c: "0 \<le> (of_char c :: int) - 48" "(of_char c :: int) - 48 \<le> 9"
    using isDigit_value [of c] by simp_all
  from ih(2) have "digitsValue ds + 1 \<le> 10 ^ length ds" by simp
  then have "(digitsValue ds + 1) * 10 \<le> 10 ^ length ds * 10"
    by (rule mult_right_mono) simp
  with ih(1) c show ?case
    by (simp add: digitsValue_snoc algebra_simps)
qed

lemma numeric_Atoi:
  assumes "numeric s" and "length s \<le> 18"
  shows "\<exists>n. Atoi s = Some n"
proof -
  obtain c cs where s: "s = c # cs"
    using assms(1) by (cases s) simp_all
  define ds where "ds = (if c = CHR ''-'' \<or> c = CHR ''+'' then cs else s)"
  have ds: "ds \<noteq> []" "list_all isDigit ds" "length ds \<le> 18"
    using assms s by (auto simp: ds_def split: if_splits)
  have "digitsValue ds < 10 ^ length ds" and nonneg: "0 \<le> digitsValue ds"
    using digitsValue_bounds [OF ds(2)] by simp_all
  moreover have "(10::int) ^ length ds \<le> 10 ^ 18"
    using ds(3) by (intro power_increasing) simp_all
  ultimately have lt: "digitsValue ds < 2 ^ 63"
    by simp
  show ?thesis
    using ds(1,2) lt nonneg s
    by (auto simp: Atoi_def Let_def intSize_def ds_def split: if_splits)
qed

subsection \<open>The Basic resolver\<close>

lemma basicResolve_all_numeric:
  "list_all (\<lambda>s. Atoi s \<noteq> None) ps \<Longrightarrow>
   basicResolve K ps c = (None, foldl (\<lambda>c s. basicParam K (the (Atoi s)) c) c ps)"
proof (induction ps arbitrary: c)
  case Nil
  show ?case by simp
next
  case (Cons s ps)
  then obtain v where "Atoi s = Some v" by auto
  with Cons show ?case by simp
qed

lemma basicResolve_first_bad:
  "list_all (\<lambda>s. Atoi s \<noteq> None) ok \<Longrightarrow> Atoi bad = None \<Longrightarrow>
   basicResolve K (ok @ bad # rest) c =
     (Some errCSIParseError, foldl (\<lambda>c s. basicParam K (the (Atoi s)) c) c ok)"
proof (induction ok arbitrary: c)
  case Nil
  then show ?case by simp
next
  case (Cons s ok)
  then obtain v where "Atoi s = Some v" by auto
  with Cons show ?case by simp
qed

lemma Atoi_examples:
  "Atoi ''31'' = Some 31" "Atoi ''1'' = Some 1" "Atoi ''44'' = Some 44" "Atoi ''?'' = None"
  "Atoi ''0'' = Some 0" "Atoi ''2'' = Some 2" "Atoi ''5'' = Some 5" "Atoi ''38'' = Some 38"
  "Atoi ''196'' = Some 196" "Atoi ''?25'' = None"
  by (simp_all add: Atoi_def isDigit_def digitsValue_def intSize_def)

subsection \<open>An error in the middle of the parameters\<close>

text \<open>
  Claim C9, as the code has it. In Basic mode the resolution at \<^verbatim>\<open>m\<close> is not atomic.
  When the sanity checks pass (at most 20 parameters, the last of at most 255 bytes) and
  the parameter list starts with parameters that are numbers and goes on with one that
  is not, \<^verbatim>\<open>parseOne\<close> returns \<^verbatim>\<open>(false, errCSIParseError)\<close>; the state is still Params and the parameter list
  is as it was, but the colours are those that the parameters before the bad one
  produce. In particular a first parameter between 30 and 37 followed by a parameter
  that is not a number leaves the foreground set to that colour.
\<close>

theorem parseOne_m_not_atomic:
  assumes "\<not> mutex ei" and "mode ei = OutputNormal" and "state ei = stateParams"
    and "withinBounds (csiParam ei)"
    and "csiParam ei = ok @ bad # rest"
    and "list_all (\<lambda>s. Atoi s \<noteq> None) ok" and "Atoi bad = None"
  shows "parseOne K ei (rune CHR ''m'') =
     Return ((False, Some errCSIParseError),
       ei\<lparr>curch := rune CHR ''m'',
          curFgColor := fst (foldl (\<lambda>c s. basicParam K (the (Atoi s)) c)
                               (curFgColor ei, curBgColor ei) ok),
          curBgColor := snd (foldl (\<lambda>c s. basicParam K (the (Atoi s)) c)
                               (curFgColor ei, curBgColor ei) ok)\<rparr>) \<and>
    (\<forall>p v. ok = [p] \<and> Atoi p = Some v \<and> 30 \<le> v \<and> v \<le> 37 \<longrightarrow>
       parseOne K ei (rune CHR ''m'') =
         Return ((False, Some errCSIParseError),
           ei\<lparr>curch := rune CHR ''m'', curFgColor := Attribute (v - 30 + 1)\<rparr>))"
proof -
  let ?c = "foldl (\<lambda>c s. basicParam K (the (Atoi s)) c) (curFgColor ei, curBgColor ei) ok"
  let ?ei = "ei\<lparr>mutex := True, curch := 109\<rparr>"
  have "outputNormal K ?ei =
      (Some errCSIParseError, ?ei\<lparr>curFgColor := fst ?c, curBgColor := snd ?c\<rparr>)"
    using assms(5) basicResolve_first_bad [OF assms(6,7), of K rest "(curFgColor ei, curBgColor ei)"]
    by (simp add: outputNormal_def outputNormal_loop_basicResolve)
  moreover have "?ei\<lparr>curFgColor := fst ?c, curBgColor := snd ?c, mutex := False\<rparr> =
      ei\<lparr>curch := 109, curFgColor := fst ?c, curBgColor := snd ?c\<rparr>"
    using assms(1) by (cases ei) simp
  ultimately have 1: "parseOne K ei (rune CHR ''m'') =
     Return ((False, Some errCSIParseError),
       ei\<lparr>curch := rune CHR ''m'', curFgColor := fst ?c, curBgColor := snd ?c\<rparr>)"
    using assms(2)
    by (simp add: parseOne_Params [OF assms(1,3,4)] rune_simps stateParams_m)
  have 2: "\<forall>p v. ok = [p] \<and> Atoi p = Some v \<and> 30 \<le> v \<and> v \<le> 37 \<longrightarrow>
       parseOne K ei (rune CHR ''m'') =
         Return ((False, Some errCSIParseError),
           ei\<lparr>curch := rune CHR ''m'', curFgColor := Attribute (v - 30 + 1)\<rparr>)"
  proof (intro allI impI)
    fix p v
    assume h: "ok = [p] \<and> Atoi p = Some v \<and> 30 \<le> v \<and> v \<le> 37"
    then have "?c = (Attribute (v - 30 + 1), curBgColor ei)"
      by (simp add: basicParam_def)
    then show "parseOne K ei (rune CHR ''m'') =
         Return ((False, Some errCSIParseError),
           ei\<lparr>curch := rune CHR ''m'', curFgColor := Attribute (v - 30 + 1)\<rparr>)"
      unfolding 1 by (cases ei) simp
  qed
  from 1 2 show ?thesis by blast
qed

theorem parseOne_m_not_atomic_witness:
  "\<not> mutex exampleBadParam \<and> mode exampleBadParam = OutputNormal \<and>
   state exampleBadParam = stateParams \<and> withinBounds (csiParam exampleBadParam) \<and>
   csiParam exampleBadParam = [''31''] @ ''?'' # [] \<and>
   Atoi ''31'' = Some 31 \<and> Atoi ''?'' = None \<and>
   feeds exampleDecls (newEscapeInterpreter exampleDecls OutputNormal) (0x1b # map rune ''[31;?'') =
     Return ([(True, None), (True, None), (True, None), (True, None), (True, None),
              (True, None)], exampleBadParam) \<and>
   parseOne exampleDecls exampleBadParam (rune CHR ''m'') =
     Return ((False, Some errCSIParseError),
       exampleBadParam\<lparr>curch := rune CHR ''m'', curFgColor := 2\<rparr>)"
proof -
  have h: "\<not> mutex exampleBadParam" "mode exampleBadParam = OutputNormal"
    "state exampleBadParam = stateParams" "withinBounds (csiParam exampleBadParam)"
    "csiParam exampleBadParam = [''31''] @ ''?'' # []"
    "list_all (\<lambda>s. Atoi s \<noteq> None) [''31'']" "Atoi ''?'' = None"
    by (simp_all add: exampleBadParam_def withinBounds_def Atoi_examples)
  have f: "feeds exampleDecls (newEscapeInterpreter exampleDecls OutputNormal) (0x1b # map rune ''[31;?'') =
     Return ([(True, None), (True, None), (True, None), (True, None), (True, None),
              (True, None)], exampleBadParam)"
    by (simp add: newEscapeInterpreter_def parseOne_def Lock_defer_Unlock_def parseOne_body_def
        parseOne_stateParams_def Let_def rune_def string_of_rune_simps exampleBadParam_def
        exampleDecls_def)
  note t = parseOne_m_not_atomic [OF h, where K = exampleDecls]
  have p': "parseOne exampleDecls exampleBadParam (rune CHR ''m'') =
     Return ((False, Some errCSIParseError),
       exampleBadParam\<lparr>curch := rune CHR ''m'', curFgColor := 2\<rparr>)"
    using conjunct2 [OF t] by (simp add: Atoi_examples Attribute_def)
  show ?thesis
    using h(1-5,7) Atoi_examples(1) f p' by blast
qed

subsection \<open>The Extended resolver\<close>

text \<open>
  What \<^verbatim>\<open>output256\<close> does when it is entered with the mutex free, which no call in
  escape.go does: it is the resolver that the specification describes.
\<close>

lemma output256_free:
  "\<not> mutex ei \<Longrightarrow> output256 K ei =
     Return (fst (output256_body K (ei\<lparr>mutex := True\<rparr>)),
             (snd (output256_body K (ei\<lparr>mutex := True\<rparr>)))\<lparr>mutex := False\<rparr>)"
  by (simp add: output256_def Lock_defer_Unlock_def split: prod.splits)

lemma output256_body_few:
  "length (csiParam ei) < 3 \<Longrightarrow> output256_body K ei = outputNormal K ei"
  by (simp add: output256_body_def)

lemma output256_body_not_5:
  "Atoi (csiParam ei ! 1) = Some v \<Longrightarrow> v \<noteq> 5 \<Longrightarrow> output256_body K ei = outputNormal K ei"
  by (simp add: output256_body_def)

lemma output256_body_not_numeric:
  "3 \<le> length (csiParam ei) \<Longrightarrow> Atoi (csiParam ei ! 1) = None \<Longrightarrow>
   output256_body K ei = (Some errCSIParseError, ei)"
  by (simp add: output256_body_def)

lemma output256_body_indexed:
  assumes "csiParam ei = p0 # p1 # p2 # rest"
    and "Atoi p1 = Some 5" and "Atoi p0 = Some fgbg" and "Atoi p2 = Some color"
  shows "output256_body K ei =
     (if fgbg = 38 then
        output256_loop K rest (ei\<lparr>curFgColor := Attribute (wrap_int (color + 1))\<rparr>)
      else if fgbg = 48 then (None, ei\<lparr>curBgColor := Attribute (wrap_int (color + 1))\<rparr>)
      else (Some errCSIParseError, ei))"
  using assms by (simp add: output256_body_def)

lemma wrap_int_small: "- (2 ^ 63) \<le> n \<Longrightarrow> n < 2 ^ 63 \<Longrightarrow> wrap_int n = n"
  by (simp add: wrap_int_def intSize_def signed_take_bit_int_eq_self)

lemma output256_example:
  "output256 exampleDecls example256Params =
     Return (None, example256Params\<lparr>curFgColor := 197\<rparr>)"
  by (simp add: output256_free example256Params_def output256_body_def Atoi_examples
      wrap_int_small Attribute_def)

text \<open>
  Claim C5, where the code departs from it. In mode \<^verbatim>\<open>Output256\<close> the sequence
  \<^verbatim>\<open>ESC [ 3 8 ; 5 ; 1 9 6 m\<close> does not set the foreground to 197: the ten calls before \<^verbatim>\<open>m\<close>
  return, and the call for \<^verbatim>\<open>m\<close> never returns, because \<^verbatim>\<open>parseOne\<close> holds the mutex that
  \<^verbatim>\<open>output256\<close> locks first. So no \<^verbatim>\<open>m\<close> is resolved in Extended mode at all.
\<close>

theorem feeds_indexed_colour_deadlock:
  "feeds exampleDecls (newEscapeInterpreter exampleDecls Output256)
     (0x1b # map rune ''[38;5;196'') =
     Return ([(True, None), (True, None), (True, None), (True, None), (True, None),
              (True, None), (True, None), (True, None), (True, None), (True, None)],
       example256Params) \<and>
   parseOne exampleDecls example256Params (rune CHR ''m'') = Deadlock \<and>
   feeds exampleDecls (newEscapeInterpreter exampleDecls Output256)
     (0x1b # map rune ''[38;5;196m'') = Deadlock"
  by (simp add: newEscapeInterpreter_def parseOne_def Lock_defer_Unlock_def parseOne_body_def
      parseOne_stateParams_def Let_def rune_def string_of_rune_simps example256Params_def
      exampleDecls_def output256_def NONE_def)

subsection \<open>runes after an error\<close>

text \<open>
  Claim C1, where the code departs from it. After \<^verbatim>\<open>ESC [ 1 ; 2 x\<close> the call for \<^verbatim>\<open>x\<close> has
  returned \<^verbatim>\<open>errCSIParseError\<close>, and \<^verbatim>\<open>runes()\<close> returns \<^verbatim>\<open>ESC [ 1 2 x\<close>: the parameters are
  joined without the \<^verbatim>\<open>;\<close> that was fed between them, so the six runes fed come back
  as five.
\<close>

theorem runes_drops_separator:
  "feeds exampleDecls (newEscapeInterpreter exampleDecls OutputNormal)
     (0x1b # map rune ''[1;2x'') =
     Return ([(True, None), (True, None), (True, None), (True, None), (True, None),
              (False, Some errCSIParseError)], exampleLostSeparator) \<and>
   runes exampleLostSeparator = Return (0x1b # map rune ''[12x'', exampleLostSeparator) \<and>
   0x1b # map rune ''[12x'' \<noteq> 0x1b # map rune ''[1;2x''"
  by (simp add: newEscapeInterpreter_def parseOne_def Lock_defer_Unlock_def parseOne_body_def
      parseOne_stateParams_def Let_def rune_def string_of_rune_simps exampleLostSeparator_def
      exampleDecls_def runes_def runes_of_string_def NONE_def)

text \<open>
  Where no \<^verbatim>\<open>;\<close> was fed, \<^verbatim>\<open>runes()\<close> does return what was fed: Scenario G, \<^verbatim>\<open>ESC Z\<close>.
\<close>

lemma runes_scenario_G:
  "feeds K (newEscapeInterpreter K m) [0x1b, rune CHR ''Z''] =
     Return ([(True, None), (False, Some errNotCSI)],
       (newEscapeInterpreter K m)\<lparr>state := stateEscape, curch := rune CHR ''Z''\<rparr>) \<and>
   runes ((newEscapeInterpreter K m)\<lparr>state := stateEscape, curch := rune CHR ''Z''\<rparr>) =
     Return ([0x1b, rune CHR ''Z''],
       (newEscapeInterpreter K m)\<lparr>state := stateEscape, curch := rune CHR ''Z''\<rparr>)"
  by (simp add: newEscapeInterpreter_def parseOne_def Lock_defer_Unlock_def parseOne_body_def
      Let_def rune_def runes_def)

subsection \<open>The bounds on the parameter storage\<close>

lemma storageBounded_Nil: "storageBounded []"
  by (simp add: storageBounded_def)

lemma storageBounded_snoc:
  "storageBounded ps \<Longrightarrow> length ps \<le> 20 \<Longrightarrow> length s \<le> 256 \<Longrightarrow> storageBounded (ps @ [s])"
  by (simp add: storageBounded_def)

lemma storageBounded_extend_last:
  assumes "storageBounded ps" and "ps \<noteq> []" and "length (last ps) \<le> 255"
  shows "storageBounded (ps[length ps - 1 := ps ! (length ps - 1) @ string_of_rune ch])"
proof -
  have "list_all (\<lambda>p. length p \<le> 256) ps"
    using assms(1) by (simp add: storageBounded_def)
  then have all: "\<forall>p \<in> set ps. length p \<le> 256"
    by (simp add: list_all_iff)
  have new: "length (ps ! (length ps - 1) @ string_of_rune ch) \<le> 256"
    using assms(2,3) by (simp add: last_conv_nth string_of_rune_def)
  have "\<forall>p \<in> set (ps[length ps - 1 := ps ! (length ps - 1) @ string_of_rune ch]). length p \<le> 256"
    using all new set_update_subset_insert [of ps "length ps - 1"] by blast
  then show ?thesis
    using assms(1) by (simp add: storageBounded_def list_all_iff)
qed

text \<open>
  The case \<^verbatim>\<open>stateParams\<close>, entered with a last parameter of at most 255 bytes, and with at
  most 20 parameters when the rune is \<^verbatim>\<open>;\<close>.
\<close>

lemma parseOne_stateParams_csiParam:
  assumes "parseOne_stateParams K ei ch = Return (r, ei')"
  shows "csiParam ei' = [] \<or> csiParam ei' = csiParam ei \<or>
     (isParamRune ch \<and> csiParam ei \<noteq> [] \<and>
      csiParam ei' = (csiParam ei)[length (csiParam ei) - 1 :=
         csiParam ei ! (length (csiParam ei) - 1) @ string_of_rune ch]) \<or>
     (ch = 59 \<and> csiParam ei' = csiParam ei @ [''''])"
proof (cases ch rule: rune_classes)
  case param
  with assms show ?thesis by (auto simp: stateParams_param split: if_splits)
next
  case semicolon
  with assms show ?thesis by (auto simp: stateParams_semicolon)
next
  case m
  show ?thesis
  proof (cases "mode ei")
    case OutputNormal
    with assms m outputNormal_frame(3) [of K ei] show ?thesis
      by (cases "outputNormal K ei") (auto simp: stateParams_m split: if_splits)
  next
    case Output256
    have "csiParam (snd (output256_body K (ei\<lparr>mutex := True\<rparr>))) = csiParam ei"
      by (simp add: output256_body_frame)
    with assms m Output256 show ?thesis
      by (cases "output256_body K (ei\<lparr>mutex := True\<rparr>)")
         (auto simp: stateParams_m output256_def Lock_defer_Unlock_def split: if_splits)
  next
    case OutputOther
    with assms m show ?thesis by (auto simp: stateParams_m)
  qed
next
  case direction
  with assms show ?thesis
    by (auto simp: stateParams_direction [OF direction] split: list.splits option.splits)
next
  case J
  with assms show ?thesis by (auto simp: stateParams_J)
next
  case h_l
  with assms show ?thesis
    by (auto simp: stateParams_h_l [OF h_l] split: list.splits if_splits)
next
  case other
  with assms show ?thesis by (auto simp: stateParams_other)
qed

lemma parseOne_stateParams_storage:
  assumes "parseOne_stateParams K ei ch = Return (r, ei')"
    and "storageBounded (csiParam ei)"
    and "csiParam ei = [] \<or> length (last (csiParam ei)) \<le> 255"
    and "ch = 59 \<Longrightarrow> length (csiParam ei) \<le> 20"
  shows "storageBounded (csiParam ei')"
proof -
  let ?ps = "csiParam ei"
  consider (empty) "csiParam ei' = []" | (same) "csiParam ei' = ?ps"
    | (extended) "?ps \<noteq> []"
        "csiParam ei' = ?ps[length ?ps - 1 := ?ps ! (length ?ps - 1) @ string_of_rune ch]"
    | (appended) "ch = 59" "csiParam ei' = ?ps @ ['''']"
    using parseOne_stateParams_csiParam [OF assms(1)] by blast
  then show ?thesis
  proof cases
    case empty
    then show ?thesis by (simp add: storageBounded_Nil)
  next
    case same
    with assms(2) show ?thesis by simp
  next
    case extended
    from extended(1) assms(3) have "length (last ?ps) \<le> 255" by simp
    from storageBounded_extend_last [OF assms(2) extended(1) this, of ch] extended(2)
    show ?thesis by simp
  next
    case appended
    from assms(4) [OF appended(1)] have "length ?ps \<le> 20" .
    from storageBounded_snoc [OF assms(2) this, of "''''"] appended(2)
    show ?thesis by simp
  qed
qed

lemma parseOne_body_storage:
  assumes "parseOne_body K ch ei = Return (r, ei')" and "storageBounded (csiParam ei)"
  shows "storageBounded (csiParam ei')"
proof (cases "withinBounds (csiParam ei)")
  case False
  with assms show ?thesis by (simp add: parseOne_body_beyond)
next
  case True
  note body = parseOne_body_within [OF True]
  have len: "length (csiParam ei) \<le> 20"
    and lst: "csiParam ei = [] \<or> length (last (csiParam ei)) \<le> 255"
    using True by (simp_all add: withinBounds_def)
  show ?thesis
  proof (cases "state ei")
    case stateNone
    with assms show ?thesis unfolding body by (auto split: if_splits)
  next
    case stateEscape
    with assms show ?thesis unfolding body by (auto split: if_splits)
  next
    case stateParams
    with assms(1) have "parseOne_stateParams K (ei\<lparr>curch := ch\<rparr>) ch = Return (r, ei')"
      unfolding body by simp
    from parseOne_stateParams_storage [OF this] assms(2) len lst
    show ?thesis by simp
  next
    case stateCSI
    have app: "\<And>s. length s \<le> 1 \<Longrightarrow>
        parseOne_stateParams K
          (ei\<lparr>curch := ch, csiParam := csiParam ei @ [s], state := stateParams\<rparr>) ch = Return (r, ei')
        \<Longrightarrow> ch \<noteq> 59 \<Longrightarrow> storageBounded (csiParam ei')"
    proof -
      fix s :: string
      assume s: "length s \<le> 1"
        and p: "parseOne_stateParams K
          (ei\<lparr>curch := ch, csiParam := csiParam ei @ [s], state := stateParams\<rparr>) ch = Return (r, ei')"
        and ch: "ch \<noteq> 59"
      have "storageBounded (csiParam ei @ [s])"
        using assms(2) len s by (intro storageBounded_snoc) simp_all
      with parseOne_stateParams_storage [OF p] s ch
      show "storageBounded (csiParam ei')" by simp
    qed
    from assms stateCSI show ?thesis
      unfolding body
      by (auto split: if_splits intro: app [of "''''"] app [of "''0''"] simp: storageBounded_Nil)
  qed
qed

lemma parseOne_storage:
  assumes "parseOne K ei ch = Return (r, ei')" and "storageBounded (csiParam ei)"
  shows "storageBounded (csiParam ei')"
proof (cases "mutex ei")
  case True
  with assms show ?thesis by (simp add: parseOne_def Lock_defer_Unlock_def)
next
  case False
  obtain ei1 where 1: "parseOne_body K ch (ei\<lparr>mutex := True\<rparr>) = Return (r, ei1)"
    and 2: "ei' = ei1\<lparr>mutex := False\<rparr>"
    using assms(1) False
    by (auto simp: parseOne_free split: outcome.splits)
  from parseOne_body_storage [OF 1] assms(2) 2 show ?thesis by simp
qed

lemma feeds_storage:
  "feeds K ei chs = Return (rs, ei') \<Longrightarrow> storageBounded (csiParam ei) \<Longrightarrow>
   storageBounded (csiParam ei')"
proof (induction chs arbitrary: ei rs)
  case Nil
  then show ?case by simp
next
  case (Cons ch chs)
  from Cons.prems(1) obtain r ei1 rs1 where
    1: "parseOne K ei ch = Return (r, ei1)" and 2: "feeds K ei1 chs = Return (rs1, ei')"
    by (auto split: outcome.splits)
  from parseOne_storage [OF 1 Cons.prems(2)] Cons.IH [OF 2] show ?case by blast
qed

lemma parseOne_too_long:
  assumes "\<not> mutex ei" and "\<not> withinBounds (csiParam ei)"
  shows "parseOne K ei ch = Return ((False, Some errCSITooLong), ei)"
proof -
  have "ei\<lparr>mutex := True, mutex := False\<rparr> = ei"
    using assms(1) by (cases ei) simp
  then show ?thesis
    using assms by (simp add: parseOne_free parseOne_body_beyond)
qed

text \<open>
  Claim C3, as the code has it. The sanity checks run at the head of \<^verbatim>\<open>parseOne\<close>, before
  the rune is handled, so they reject once the storage is beyond 20 parameters or 255
  bytes, not the rune that takes it there. For every input history fed to a new
  interpreter, whatever the calls return, the parameter list holds at most 21
  parameters, each of at most 256 bytes. And in every state with more than 20
  parameters, or with a last parameter of more than 255 bytes, \<^verbatim>\<open>parseOne\<close> returns
  \<^verbatim>\<open>(false, errCSITooLong)\<close> for every rune and leaves the interpreter as it was.
\<close>

theorem parameter_storage_bounds:
  "(feeds K (newEscapeInterpreter K m) chs = Return (rs, ei) \<longrightarrow>
      length (csiParam ei) \<le> 21 \<and> list_all (\<lambda>p. length p \<le> 256) (csiParam ei)) \<and>
   (\<not> mutex ei0 \<and>
    (20 < length (csiParam ei0) \<or> (csiParam ei0 \<noteq> [] \<and> 255 < length (last (csiParam ei0)))) \<longrightarrow>
      parseOne K ei0 ch = Return ((False, Some errCSITooLong), ei0))"
proof -
  have "storageBounded (csiParam (newEscapeInterpreter K m))"
    by (simp add: newEscapeInterpreter_def storageBounded_Nil)
  then have 1: "feeds K (newEscapeInterpreter K m) chs = Return (rs, ei) \<longrightarrow>
      length (csiParam ei) \<le> 21 \<and> list_all (\<lambda>p. length p \<le> 256) (csiParam ei)"
    using feeds_storage [of K "newEscapeInterpreter K m" chs rs ei]
    by (simp add: storageBounded_def)
  have 2: "\<not> mutex ei0 \<and>
    (20 < length (csiParam ei0) \<or> (csiParam ei0 \<noteq> [] \<and> 255 < length (last (csiParam ei0)))) \<longrightarrow>
      parseOne K ei0 ch = Return ((False, Some errCSITooLong), ei0)"
    using parseOne_too_long [of ei0 K ch]
    by (auto simp: withinBounds_def)
  from 1 2 show ?thesis by blast
qed

text \<open>
  The claim as stated fails: the twentieth \<^verbatim>\<open>;\<close> after \<^verbatim>\<open>ESC [ 0\<close> makes the parameter count
  21, and its call returns \<^verbatim>\<open>(true, nil)\<close>, not \<^verbatim>\<open>errCSITooLong\<close>.
\<close>

theorem twenty_one_parameters_counterexample:
  "feeds exampleDecls (newEscapeInterpreter exampleDecls OutputNormal)
     (0x1b # map rune ''[0;;;;;;;;;;;;;;;;;;;;'') =
     Return ([(True, None), (True, None), (True, None),
              (True, None), (True, None), (True, None), (True, None), (True, None),
              (True, None), (True, None), (True, None), (True, None), (True, None),
              (True, None), (True, None), (True, None), (True, None), (True, None),
              (True, None), (True, None), (True, None), (True, None), (True, None)],
       exampleTwentyOne) \<and>
   length (csiParam exampleTwentyOne) = 21"
  by (simp add: newEscapeInterpreter_def parseOne_def Lock_defer_Unlock_def parseOne_body_def
      parseOne_stateParams_def Let_def rune_def string_of_rune_simps exampleTwentyOne_def
      exampleDecls_def NONE_def)

theorem parameter_storage_bounds_witness:
  "feeds exampleDecls (newEscapeInterpreter exampleDecls OutputNormal)
     (0x1b # map rune ''[0;;;;;;;;;;;;;;;;;;;;'') =
     Return ([(True, None), (True, None), (True, None),
              (True, None), (True, None), (True, None), (True, None), (True, None),
              (True, None), (True, None), (True, None), (True, None), (True, None),
              (True, None), (True, None), (True, None), (True, None), (True, None),
              (True, None), (True, None), (True, None), (True, None), (True, None)],
       exampleTwentyOne) \<and>
   length (csiParam exampleTwentyOne) \<le> 21 \<and>
   list_all (\<lambda>p. length p \<le> 256) (csiParam exampleTwentyOne) \<and>
   \<not> mutex exampleTwentyOne \<and> 20 < length (csiParam exampleTwentyOne) \<and>
   parseOne exampleDecls exampleTwentyOne (rune CHR ''m'') =
     Return ((False, Some errCSITooLong), exampleTwentyOne)"
proof -
  have f: "feeds exampleDecls (newEscapeInterpreter exampleDecls OutputNormal)
     (0x1b # map rune ''[0;;;;;;;;;;;;;;;;;;;;'') =
     Return ([(True, None), (True, None), (True, None),
              (True, None), (True, None), (True, None), (True, None), (True, None),
              (True, None), (True, None), (True, None), (True, None), (True, None),
              (True, None), (True, None), (True, None), (True, None), (True, None),
              (True, None), (True, None), (True, None), (True, None), (True, None)],
       exampleTwentyOne)"
    by (simp add: newEscapeInterpreter_def parseOne_def Lock_defer_Unlock_def parseOne_body_def
        parseOne_stateParams_def Let_def rune_def string_of_rune_simps exampleTwentyOne_def
        exampleDecls_def NONE_def)
  have h: "\<not> mutex exampleTwentyOne" "20 < length (csiParam exampleTwentyOne)"
    by (simp_all add: exampleTwentyOne_def)
  note t = parameter_storage_bounds [where K = exampleDecls and m = OutputNormal
      and chs = "0x1b # map rune ''[0;;;;;;;;;;;;;;;;;;;;''" and ei = exampleTwentyOne
      and ei0 = exampleTwentyOne and ch = "rune CHR ''m''"]
  have b: "length (csiParam exampleTwentyOne) \<le> 21 \<and>
      list_all (\<lambda>p. length p \<le> 256) (csiParam exampleTwentyOne)"
    using conjunct1 [OF t] f by blast
  have e: "parseOne exampleDecls exampleTwentyOne (rune CHR ''m'') =
     Return ((False, Some errCSITooLong), exampleTwentyOne)"
    using conjunct2 [OF t] h by blast
  from f b h e show ?thesis by blast
qed

subsection \<open>Histories that return\<close>

text \<open>
  \<^verbatim>\<open>parseOne\<close> keeps the mode, and it leaves a state between two calls as one: index
  expressions on the parameter list never panic in a run from a new interpreter.
\<close>

lemma parseOne_stateParams_shape:
  assumes "parseOne_stateParams K ei ch = Return (r, ei')"
    and "state ei = stateParams" and "csiParam ei \<noteq> []"
  shows "mode ei' = mode ei \<and>
     (state ei' = stateNone \<or> (state ei' = stateParams \<and> csiParam ei' \<noteq> []))"
proof (cases ch rule: rune_classes)
  case param
  with assms show ?thesis by (auto simp: stateParams_param split: if_splits)
next
  case semicolon
  with assms show ?thesis by (auto simp: stateParams_semicolon)
next
  case m
  show ?thesis
  proof (cases "mode ei")
    case OutputNormal
    with assms m outputNormal_frame(1,3,4) [of K ei] show ?thesis
      by (cases "outputNormal K ei") (auto simp: stateParams_m split: if_splits)
  next
    case Output256
    have "csiParam (snd (output256_body K (ei\<lparr>mutex := True\<rparr>))) = csiParam ei"
      "state (snd (output256_body K (ei\<lparr>mutex := True\<rparr>))) = state ei"
      "mode (snd (output256_body K (ei\<lparr>mutex := True\<rparr>))) = mode ei"
      by (simp_all add: output256_body_frame)
    with assms m Output256 show ?thesis
      by (cases "output256_body K (ei\<lparr>mutex := True\<rparr>)")
         (auto simp: stateParams_m output256_def Lock_defer_Unlock_def split: if_splits)
  next
    case OutputOther
    with assms m show ?thesis by (auto simp: stateParams_m)
  qed
next
  case direction
  with assms show ?thesis
    by (auto simp: stateParams_direction [OF direction] split: list.splits option.splits)
next
  case J
  with assms show ?thesis by (auto simp: stateParams_J)
next
  case h_l
  with assms show ?thesis
    by (auto simp: stateParams_h_l [OF h_l] split: list.splits if_splits)
next
  case other
  with assms show ?thesis by (auto simp: stateParams_other)
qed

lemma parseOne_body_shape:
  assumes "parseOne_body K ch ei = Return (r, ei')"
    and "state ei = stateParams \<Longrightarrow> csiParam ei \<noteq> []"
  shows "mode ei' = mode ei \<and> (state ei' \<noteq> stateParams \<or> csiParam ei' \<noteq> [])"
proof (cases "withinBounds (csiParam ei)")
  case False
  with assms show ?thesis by (auto simp: parseOne_body_beyond)
next
  case True
  note body = parseOne_body_within [OF True]
  show ?thesis
  proof (cases "state ei")
    case stateNone
    with assms show ?thesis unfolding body by (auto split: if_splits)
  next
    case stateEscape
    with assms show ?thesis unfolding body by (auto split: if_splits)
  next
    case stateParams
    with assms(1) have "parseOne_stateParams K (ei\<lparr>curch := ch\<rparr>) ch = Return (r, ei')"
      unfolding body by simp
    from parseOne_stateParams_shape [OF this] stateParams assms(2)
    show ?thesis by auto
  next
    case stateCSI
    have app: "\<And>s c. parseOne_stateParams K
          (ei\<lparr>curch := c, csiParam := csiParam ei @ [s], state := stateParams\<rparr>) c = Return (r, ei')
        \<Longrightarrow> mode ei' = mode ei \<and> (state ei' \<noteq> stateParams \<or> csiParam ei' \<noteq> [])"
    proof -
      fix s :: string and c :: rune
      assume "parseOne_stateParams K
          (ei\<lparr>curch := c, csiParam := csiParam ei @ [s], state := stateParams\<rparr>) c = Return (r, ei')"
      from parseOne_stateParams_shape [OF this]
      show "mode ei' = mode ei \<and> (state ei' \<noteq> stateParams \<or> csiParam ei' \<noteq> [])"
        by auto
    qed
    from assms(1) stateCSI show ?thesis
      unfolding body
      by (auto split: if_splits dest: app)
  qed
qed

lemma parseOne_betweenCalls:
  assumes "parseOne K ei ch = Return (r, ei')" and "betweenCalls ei"
  shows "betweenCalls ei' \<and> mode ei' = mode ei"
proof -
  have free: "\<not> mutex ei" and ne: "state ei = stateParams \<Longrightarrow> csiParam ei \<noteq> []"
    using assms(2) by (auto simp: betweenCalls_def split: if_splits)
  obtain ei1 where 1: "parseOne_body K ch (ei\<lparr>mutex := True\<rparr>) = Return (r, ei1)"
    and 2: "ei' = ei1\<lparr>mutex := False\<rparr>"
    using assms(1) free
    by (auto simp: parseOne_free split: outcome.splits)
  from parseOne_body_shape [OF 1] ne
  have "mode ei1 = mode ei \<and> (state ei1 \<noteq> stateParams \<or> csiParam ei1 \<noteq> [])"
    by simp
  with 2 show ?thesis
    by (auto simp: betweenCalls_def)
qed

lemma newEscapeInterpreter_betweenCalls: "betweenCalls (newEscapeInterpreter K m)"
  by (simp add: betweenCalls_def newEscapeInterpreter_def)

text \<open>
  Every history returns, unless the mode is \<^verbatim>\<open>Output256\<close> and the history has an \<^verbatim>\<open>m\<close>.
\<close>

lemma feeds_returns:
  assumes "betweenCalls ei" and "mode ei \<noteq> Output256 \<or> 109 \<notin> set chs"
  shows "\<exists>rs ei'. feeds K ei chs = Return (rs, ei')"
  using assms
proof (induction chs arbitrary: ei)
  case Nil
  show ?case by simp
next
  case (Cons ch chs)
  have free: "\<not> mutex ei" and ne: "state ei = stateParams \<Longrightarrow> csiParam ei \<noteq> []"
    using Cons.prems(1) by (auto simp: betweenCalls_def split: if_splits)
  have "mode ei \<noteq> Output256 \<or> ch \<noteq> 109"
    using Cons.prems(2) by auto
  from parseOne_returns [OF free ne this]
  obtain r ei1 where 1: "parseOne K ei ch = Return (r, ei1)"
    by blast
  from parseOne_betweenCalls [OF 1 Cons.prems(1)]
  have b: "betweenCalls ei1" and m: "mode ei1 = mode ei"
    by simp_all
  have "mode ei1 \<noteq> Output256 \<or> 109 \<notin> set chs"
    using Cons.prems(2) m by auto
  from Cons.IH [OF b this] obtain rs ei' where "feeds K ei1 chs = Return (rs, ei')"
    by blast
  with 1 show ?case by simp
qed

lemma feeds_new_returns:
  "m \<noteq> Output256 \<Longrightarrow> \<exists>rs ei. feeds K (newEscapeInterpreter K m) chs = Return (rs, ei)"
  by (rule feeds_returns [OF newEscapeInterpreter_betweenCalls])
     (simp add: newEscapeInterpreter_def)

subsection \<open>A parameter of 256 bytes\<close>

text \<open>
  Digits are accepted as long as the last parameter has at most 255 bytes before the
  call, so a parameter grows to 256 bytes: \<^verbatim>\<open>ESC [\<close> and 256 times \<^verbatim>\<open>1\<close> are all accepted.
\<close>

lemma feeds_digits:
  assumes "\<not> mutex ei" and "state ei = stateParams" and "csiParam ei = [p]"
    and "length p + n \<le> 256" and "0 < n"
  shows "feeds K ei (replicate n 49) =
     Return (replicate n (True, None), ei\<lparr>curch := 49, csiParam := [p @ replicate n CHR ''1'']\<rparr>)"
  using assms
proof (induction n arbitrary: ei p)
  case 0
  then show ?case by simp
next
  case (Suc n)
  have w: "withinBounds (csiParam ei)"
    using Suc.prems(3,4) by (simp add: withinBounds_def)
  have d: "isParamRune 49"
    by (simp add: isParamRune_def)
  let ?ei1 = "ei\<lparr>curch := 49, csiParam := [p @ ''1'']\<rparr>"
  have "ei\<lparr>mutex := True, curch := 49, csiParam := [p @ ''1''], mutex := False\<rparr> = ?ei1"
    using Suc.prems(1) by (cases ei) simp
  then have 1: "parseOne K ei 49 = Return ((True, None), ?ei1)"
    using Suc.prems(3)
    by (simp add: parseOne_Params [OF Suc.prems(1,2) w] stateParams_param [OF d]
        string_of_rune_simps)
  show ?case
  proof (cases "n = 0")
    case True
    with 1 show ?thesis by simp
  next
    case False
    have "feeds K ?ei1 (replicate n 49) =
      Return (replicate n (True, None),
        ?ei1\<lparr>curch := 49, csiParam := [(p @ ''1'') @ replicate n CHR ''1'']\<rparr>)"
      using Suc.prems False by (intro Suc.IH) simp_all
    with 1 show ?thesis
      by (simp add: replicate_append_same)
  qed
qed

lemma parameter_of_256_bytes:
  "feeds K (newEscapeInterpreter K m) (0x1b # rune CHR ''['' # replicate 256 49) =
     Return (replicate 258 (True, None),
       (newEscapeInterpreter K m)
         \<lparr>state := stateParams, curch := 49, csiParam := [replicate 256 CHR ''1'']\<rparr>)"
proof -
  let ?ei = "(newEscapeInterpreter K m)\<lparr>state := stateParams, curch := 49, csiParam := [''1'']\<rparr>"
  have 1: "feeds K (newEscapeInterpreter K m) [0x1b, rune CHR ''['', 49] =
      Return ([(True, None), (True, None), (True, None)], ?ei)"
    by (simp add: newEscapeInterpreter_def parseOne_def Lock_defer_Unlock_def parseOne_body_def
        parseOne_stateParams_def Let_def rune_def string_of_rune_simps)
  have 2: "feeds K ?ei (replicate 255 49) =
      Return (replicate 255 (True, None), ?ei\<lparr>curch := 49, csiParam := [''1'' @ replicate 255 CHR ''1'']\<rparr>)"
    by (rule feeds_digits) (simp_all add: newEscapeInterpreter_def)
  have r: "replicate 256 (49 :: int) = 49 # replicate 255 49"
    "replicate 258 (True, None :: error option) =
      [(True, None), (True, None), (True, None)] @ replicate 255 (True, None)"
    "replicate 256 CHR ''1'' = ''1'' @ replicate 255 CHR ''1''"
    by (simp_all add: replicate_add [symmetric] del: replicate_Suc flip: replicate_Suc)
  have app: "\<And>xs ys rs1 rs2 e1 e2 e0. feeds K e0 xs = Return (rs1, e1) \<Longrightarrow>
      feeds K e1 ys = Return (rs2, e2) \<Longrightarrow> feeds K e0 (xs @ ys) = Return (rs1 @ rs2, e2)"
  proof -
    fix xs ys rs1 rs2 and e1 e2 e0 :: "'a word escapeInterpreter"
    show "feeds K e0 xs = Return (rs1, e1) \<Longrightarrow>
      feeds K e1 ys = Return (rs2, e2) \<Longrightarrow> feeds K e0 (xs @ ys) = Return (rs1 @ rs2, e2)"
      by (induction xs arbitrary: e0 rs1) (auto split: outcome.splits)
  qed
  from app [OF 1 2] show ?thesis
    unfolding r by simp
qed

subsection \<open>The parameters hold digits and question marks only\<close>

text \<open>
  In every run from a new interpreter the stored parameters consist of the bytes
  \<^verbatim>\<open>0\<close> to \<^verbatim>\<open>9\<close> and \<^verbatim>\<open>?\<close>, so \<open>string_of_rune\<close> and \<open>runes_of_string\<close> are only ever applied
  where one byte is one rune.
\<close>

lemma string_of_rune_paramBytes:
  assumes "isParamRune ch"
  shows "list_all (\<lambda>c. isDigit c \<or> c = CHR ''?'') (string_of_rune ch)"
proof -
  from assms have "ch = 48 \<or> ch = 49 \<or> ch = 50 \<or> ch = 51 \<or> ch = 52 \<or> ch = 53 \<or>
      ch = 54 \<or> ch = 55 \<or> ch = 56 \<or> ch = 57 \<or> ch = 63"
    unfolding isParamRune_def by arith
  then show ?thesis
    by (auto simp: string_of_rune_simps isDigit_def)
qed

lemma paramBytes_Nil: "paramBytes []"
  by (simp add: paramBytes_def)

lemma paramBytes_extend_last:
  assumes "paramBytes ps" and "ps \<noteq> []" and "isParamRune ch"
  shows "paramBytes (ps[length ps - 1 := ps ! (length ps - 1) @ string_of_rune ch])"
proof -
  let ?P = "list_all (\<lambda>c. isDigit c \<or> c = CHR ''?'')"
  have all: "\<forall>p \<in> set ps. ?P p"
    using assms(1) by (simp add: paramBytes_def list_all_iff)
  have "ps ! (length ps - 1) \<in> set ps"
    using assms(2) by simp
  with all have "?P (ps ! (length ps - 1))"
    by blast
  with string_of_rune_paramBytes [OF assms(3)]
  have new: "?P (ps ! (length ps - 1) @ string_of_rune ch)"
    by simp
  have "\<forall>p \<in> set (ps[length ps - 1 := ps ! (length ps - 1) @ string_of_rune ch]). ?P p"
    using all new set_update_subset_insert [of ps "length ps - 1"] by blast
  then show ?thesis
    unfolding paramBytes_def list_all_iff [of ?P] .
qed

lemma parseOne_stateParams_paramBytes:
  assumes "parseOne_stateParams K ei ch = Return (r, ei')" and "paramBytes (csiParam ei)"
  shows "paramBytes (csiParam ei')"
proof -
  let ?ps = "csiParam ei"
  consider (empty) "csiParam ei' = []" | (same) "csiParam ei' = ?ps"
    | (extended) "isParamRune ch" "?ps \<noteq> []"
        "csiParam ei' = ?ps[length ?ps - 1 := ?ps ! (length ?ps - 1) @ string_of_rune ch]"
    | (appended) "csiParam ei' = ?ps @ ['''']"
    using parseOne_stateParams_csiParam [OF assms(1)] by blast
  then show ?thesis
  proof cases
    case empty
    then show ?thesis by (simp add: paramBytes_Nil)
  next
    case same
    with assms(2) show ?thesis by simp
  next
    case extended
    from paramBytes_extend_last [OF assms(2) extended(2,1)] extended(3)
    show ?thesis by simp
  next
    case appended
    with assms(2) show ?thesis by (simp add: paramBytes_def)
  qed
qed

lemma parseOne_body_paramBytes:
  assumes "parseOne_body K ch ei = Return (r, ei')" and "paramBytes (csiParam ei)"
  shows "paramBytes (csiParam ei')"
proof (cases "withinBounds (csiParam ei)")
  case False
  with assms show ?thesis by (simp add: parseOne_body_beyond)
next
  case True
  note body = parseOne_body_within [OF True]
  show ?thesis
  proof (cases "state ei")
    case stateNone
    with assms show ?thesis unfolding body by (auto split: if_splits)
  next
    case stateEscape
    with assms show ?thesis unfolding body by (auto split: if_splits)
  next
    case stateParams
    with assms(1) have "parseOne_stateParams K (ei\<lparr>curch := ch\<rparr>) ch = Return (r, ei')"
      unfolding body by simp
    from parseOne_stateParams_paramBytes [OF this] assms(2)
    show ?thesis by simp
  next
    case stateCSI
    have app: "\<And>s c. paramBytes [s] \<Longrightarrow>
        parseOne_stateParams K
          (ei\<lparr>curch := c, csiParam := csiParam ei @ [s], state := stateParams\<rparr>) c = Return (r, ei')
        \<Longrightarrow> paramBytes (csiParam ei')"
    proof -
      fix s :: string and c :: rune
      assume s: "paramBytes [s]"
        and p: "parseOne_stateParams K
          (ei\<lparr>curch := c, csiParam := csiParam ei @ [s], state := stateParams\<rparr>) c = Return (r, ei')"
      have "paramBytes (csiParam ei @ [s])"
        using assms(2) s by (simp add: paramBytes_def)
      with parseOne_stateParams_paramBytes [OF p]
      show "paramBytes (csiParam ei')" by simp
    qed
    have e: "paramBytes ['''']" and z: "paramBytes [''0'']"
      by (simp_all add: paramBytes_def isDigit_def)
    from assms stateCSI show ?thesis
      unfolding body
      by (auto split: if_splits dest: app [OF e] app [OF z] simp: paramBytes_Nil)
  qed
qed

lemma parseOne_paramBytes:
  assumes "parseOne K ei ch = Return (r, ei')" and "paramBytes (csiParam ei)"
  shows "paramBytes (csiParam ei')"
proof (cases "mutex ei")
  case True
  with assms show ?thesis by (simp add: parseOne_def Lock_defer_Unlock_def)
next
  case False
  obtain ei1 where 1: "parseOne_body K ch (ei\<lparr>mutex := True\<rparr>) = Return (r, ei1)"
    and 2: "ei' = ei1\<lparr>mutex := False\<rparr>"
    using assms(1) False
    by (auto simp: parseOne_free split: outcome.splits)
  from parseOne_body_paramBytes [OF 1] assms(2) 2 show ?thesis by simp
qed

lemma feeds_paramBytes:
  "feeds K ei chs = Return (rs, ei') \<Longrightarrow> paramBytes (csiParam ei) \<Longrightarrow>
   paramBytes (csiParam ei')"
proof (induction chs arbitrary: ei rs)
  case Nil
  then show ?case by simp
next
  case (Cons ch chs)
  from Cons.prems(1) obtain r ei1 rs1 where
    1: "parseOne K ei ch = Return (r, ei1)" and 2: "feeds K ei1 chs = Return (rs1, ei')"
    by (auto split: outcome.splits)
  from parseOne_paramBytes [OF 1 Cons.prems(2)] Cons.IH [OF 2] show ?case by blast
qed

lemma feeds_new_paramBytes:
  assumes "feeds K (newEscapeInterpreter K m) chs = Return (rs, ei)"
  shows "paramBytes (csiParam ei)"
proof -
  have "paramBytes (csiParam (newEscapeInterpreter K m))"
    by (simp add: newEscapeInterpreter_def paramBytes_Nil)
  from feeds_paramBytes [OF assms this] show ?thesis .
qed

subsection \<open>The attribute bits\<close>

lemma or_flag_slot:
  fixes w f F :: "'a::len word"
  assumes "f AND NOT F = 0"
  shows "(w OR f) AND NOT F = w AND NOT F"
  using assms by (simp add: bit.conj_disj_distrib2)

lemma flag_in_bits:
  "AttrBold K AND NOT (modifierBits K) = 0"
  "AttrUnderline K AND NOT (modifierBits K) = 0"
  "AttrReverse K AND NOT (modifierBits K) = 0"
  by (simp_all add: modifierBits_def bit_eq_iff bit_and_iff bit_or_iff bit_not_iff)

lemma or_flag_other:
  fixes w f g :: "'a::len word"
  assumes "f AND g = 0"
  shows "(w OR f) AND g = w AND g"
  using assms by (simp add: bit.conj_disj_distrib2)

lemma or_flag_self:
  fixes w f :: "'a::len word"
  assumes "f \<noteq> 0"
  shows "(w OR f) AND f \<noteq> 0"
proof -
  have "(w OR f) AND f = f"
    by (simp add: bit_eq_iff bit_and_iff bit_or_iff)
  with assms show ?thesis by simp
qed

lemma small_and_mask:
  assumes "0 \<le> n" and "n < 512"
  shows "(Attribute n :: 'a::len word) AND mask 9 = Attribute n"
proof -
  have "take_bit 9 n = n"
    using assms by (simp add: take_bit_int_eq_self)
  then have "\<And>i. bit n i \<Longrightarrow> i < 9"
    by (metis bit_take_bit_iff)
  then show ?thesis
    unfolding Attribute_def
    by (auto simp: bit_eq_iff bit_and_iff bit_mask_iff bit_word_of_int_iff)
qed

lemma small_and_flag:
  fixes f :: "'a::len word"
  assumes "0 \<le> n" and "n < 512" and "f AND mask 9 = 0"
  shows "Attribute n AND f = 0"
proof -
  have m: "(Attribute n :: 'a word) AND mask 9 = Attribute n"
    by (rule small_and_mask [OF assms(1,2)])
  have "(Attribute n :: 'a word) AND f = (Attribute n AND mask 9) AND f"
    by (simp only: m)
  also have "\<dots> = Attribute n AND (f AND mask 9)"
    by (simp add: ac_simps)
  finally show ?thesis
    using assms(3) by simp
qed

lemma and_not_of_disjoint:
  fixes x F :: "'a::len word"
  assumes "x AND F = 0"
  shows "x AND NOT F = x"
  using assms by (metis bit.conj_disj_distrib bit.disj_cancel_right
      bit.conj_one_right word_log_esimps(9))

lemma layout_small:
  assumes "declsLayout K" and "0 \<le> n" and "n < 512"
  shows "Attribute n AND NOT (modifierBits K) = Attribute n"
    and "Attribute n AND AttrBold K = 0"
    and "Attribute n AND AttrUnderline K = 0"
    and "Attribute n AND AttrReverse K = 0"
proof -
  have b: "AttrBold K AND mask 9 = 0" and u: "AttrUnderline K AND mask 9 = 0"
    and r: "AttrReverse K AND mask 9 = 0"
    using assms(1) by (simp_all add: declsLayout_def)
  show 1: "Attribute n AND AttrBold K = 0"
    by (rule small_and_flag [OF assms(2,3) b])
  show 2: "Attribute n AND AttrUnderline K = 0"
    by (rule small_and_flag [OF assms(2,3) u])
  show 3: "Attribute n AND AttrReverse K = 0"
    by (rule small_and_flag [OF assms(2,3) r])
  have "Attribute n AND modifierBits K = 0"
    using 1 2 3 by (simp add: modifierBits_def bit.conj_disj_distrib)
  then show "Attribute n AND NOT (modifierBits K) = Attribute n"
    by (rule and_not_of_disjoint)
qed

lemma layout_zero:
  "(0 :: 'a::len word) AND NOT (modifierBits K) = 0"
  by simp

text \<open>
  One iteration: on the attribute state that the pair of colours holds, the switch of
  \<^verbatim>\<open>outputNormal\<close> has the effect \<open>basicEffect\<close>.
\<close>

lemma unpack_basicParam:
  assumes "declsLayout K"
  shows "unpackAttributes K (basicParam K p c) = basicEffect p (unpackAttributes K c)"
proof -
  have d: "ColorDefault K = 0"
    and nz: "AttrBold K \<noteq> 0" "AttrUnderline K \<noteq> 0" "AttrReverse K \<noteq> 0"
    and bu: "AttrBold K AND AttrUnderline K = 0" and br: "AttrBold K AND AttrReverse K = 0"
    and ur: "AttrUnderline K AND AttrReverse K = 0"
    using assms by (simp_all add: declsLayout_def)
  have ub: "AttrUnderline K AND AttrBold K = 0" and rb: "AttrReverse K AND AttrBold K = 0"
    and ru: "AttrReverse K AND AttrUnderline K = 0"
    using bu br ur by (simp_all add: ac_simps)
  consider (fg) "30 \<le> p" "p \<le> 37" | (fgdef) "p = 39" | (bg) "40 \<le> p" "p \<le> 47"
    | (bgdef) "p = 49" | (bold) "p = 1" | (underline) "p = 4" | (reverse) "p = 7"
    | (reset) "p = 0"
    | (other) "p \<notin> {30..37}" "p \<noteq> 39" "p \<notin> {40..47}" "p \<noteq> 49" "p \<noteq> 1" "p \<noteq> 4"
        "p \<noteq> 7" "p \<noteq> 0"
    by fastforce
  then show ?thesis
  proof cases
    case fg
    then have n: "0 \<le> p - 29" "p - 29 < 512" by simp_all
    from fg show ?thesis
      by (simp add: basicParam_def basicEffect_def unpackAttributes_def
          layout_small [OF assms n])
  next
    case fgdef
    then show ?thesis
      by (simp add: basicParam_def basicEffect_def unpackAttributes_def d)
  next
    case bg
    then have n: "0 \<le> p - 39" "p - 39 < 512" by simp_all
    from bg show ?thesis
      by (simp add: basicParam_def basicEffect_def unpackAttributes_def
          layout_small [OF assms n])
  next
    case bgdef
    then show ?thesis
      by (simp add: basicParam_def basicEffect_def unpackAttributes_def d)
  next
    case bold
    then show ?thesis
      by (simp add: basicParam_def basicEffect_def unpackAttributes_def
          or_flag_slot [OF flag_in_bits(1)] or_flag_self [OF nz(1)] nz
          or_flag_other [OF bu] or_flag_other [OF br])
  next
    case underline
    then show ?thesis
      by (simp add: basicParam_def basicEffect_def unpackAttributes_def
          or_flag_slot [OF flag_in_bits(2)] or_flag_self [OF nz(2)] nz
          or_flag_other [OF ub] or_flag_other [OF ur])
  next
    case reverse
    then show ?thesis
      by (simp add: basicParam_def basicEffect_def unpackAttributes_def
          or_flag_slot [OF flag_in_bits(3)] or_flag_self [OF nz(3)] nz
          or_flag_other [OF rb] or_flag_other [OF ru])
  next
    case reset
    then show ?thesis
      by (simp add: basicParam_def basicEffect_def unpackAttributes_def d)
  next
    case other
    then show ?thesis
      by (auto simp: basicParam_def basicEffect_def)
  qed
qed

lemma unpack_basicResolve:
  assumes "declsLayout K"
  shows "basicEffects ps (unpackAttributes K c) =
     (fst (basicResolve K ps c), unpackAttributes K (snd (basicResolve K ps c)))"
proof (induction ps arbitrary: c)
  case Nil
  show ?case by simp
next
  case (Cons s ps)
  show ?case
  proof (cases "Atoi s")
    case None
    then show ?thesis by simp
  next
    case (Some p)
    with Cons.IH [of "basicParam K p c"] show ?thesis
      by (simp add: unpack_basicParam [OF assms])
  qed
qed

lemma basicEffects_all_numeric:
  "list_all (\<lambda>s. Atoi s \<noteq> None) ps \<Longrightarrow>
   basicEffects ps a = (None, foldl (\<lambda>a s. basicEffect (the (Atoi s)) a) a ps)"
proof (induction ps arbitrary: a)
  case Nil
  show ?case by simp
next
  case (Cons s ps)
  then obtain v where "Atoi s = Some v" by auto
  with Cons show ?case by simp
qed

lemma basicEffects_first_bad:
  "list_all (\<lambda>s. Atoi s \<noteq> None) ok \<Longrightarrow> Atoi bad = None \<Longrightarrow>
   basicEffects (ok @ bad # rest) a =
     (Some errCSIParseError, foldl (\<lambda>a s. basicEffect (the (Atoi s)) a) a ok)"
proof (induction ok arbitrary: a)
  case Nil
  then show ?case by simp
next
  case (Cons s ok)
  then obtain v where "Atoi s = Some v" by auto
  with Cons show ?case by simp
qed

text \<open>\<open>Atoi\<close> accepts exactly the numeric strings whose value is in the range of \<^verbatim>\<open>int\<close>.\<close>

lemma Atoi_numeric_in_range:
  "Atoi s =
     (if numeric s \<and> - (2 ^ 63) \<le> numericValue s \<and> numericValue s < 2 ^ 63
      then Some (numericValue s) else None)"
  by (cases s) (auto simp: Atoi_def Let_def intSize_def)

lemma exampleDecls_layout: "declsLayout exampleDecls"
  by (simp add: declsLayout_def exampleDecls_def mask_eq_exp_minus_1)

subsection \<open>The Basic resolver and the specification's table\<close>

text \<open>
  Claim C6, as the code has it. \<^verbatim>\<open>outputNormal\<close> visits the parameters in order and changes
  nothing but the two colour fields. With the attribute declarations laid out as the
  specification says, its error result and the attribute state it leaves are those of
  \<open>basicEffects\<close>: 30 to 37 set the foreground slot to code - 30 + 1 and 39 sets it to
  the default, both clearing Bold, Underline and Reverse as well, because the assignment
  replaces the whole foreground attribute; 40 to 47 set the background slot to
  code - 40 + 1 and 49 sets it to the default; 1, 4 and 7 set Bold, Underline and
  Reverse; 0 makes both slots the default and clears the modifiers; every other value
  that \<^verbatim>\<open>Atoi\<close> returns is ignored. A parameter that \<^verbatim>\<open>Atoi\<close> rejects ends the loop with
  \<^verbatim>\<open>errCSIParseError\<close>, the parameters before it staying applied, and \<^verbatim>\<open>Atoi\<close> rejects exactly
  the strings that are not numeric and the numeric strings whose value is outside the
  range of \<^verbatim>\<open>int\<close>. Scenario A: \<^verbatim>\<open>ESC [ 3 1 m X\<close> sets the foreground to 2 and reports \<^verbatim>\<open>X\<close> as
  literal, with the foreground still 2.
\<close>

theorem outputNormal_basic_effects:
  "(declsLayout K \<longrightarrow>
      fst (outputNormal K ei) =
        fst (basicEffects (csiParam ei) (unpackAttributes K (curFgColor ei, curBgColor ei))) \<and>
      unpackAttributes K
          (curFgColor (snd (outputNormal K ei)), curBgColor (snd (outputNormal K ei))) =
        snd (basicEffects (csiParam ei) (unpackAttributes K (curFgColor ei, curBgColor ei)))) \<and>
   state (snd (outputNormal K ei)) = state ei \<and>
   curch (snd (outputNormal K ei)) = curch ei \<and>
   csiParam (snd (outputNormal K ei)) = csiParam ei \<and>
   mode (snd (outputNormal K ei)) = mode ei \<and>
   mutex (snd (outputNormal K ei)) = mutex ei \<and>
   instruction (snd (outputNormal K ei)) = instruction ei \<and>
   (list_all (\<lambda>s. Atoi s \<noteq> None) ps \<longrightarrow>
      basicEffects ps a = (None, foldl (\<lambda>a s. basicEffect (the (Atoi s)) a) a ps)) \<and>
   (list_all (\<lambda>s. Atoi s \<noteq> None) ok \<and> Atoi bad = None \<longrightarrow>
      basicEffects (ok @ bad # rest) a =
        (Some errCSIParseError, foldl (\<lambda>a s. basicEffect (the (Atoi s)) a) a ok)) \<and>
   Atoi s =
     (if numeric s \<and> - (2 ^ 63) \<le> numericValue s \<and> numericValue s < 2 ^ 63
      then Some (numericValue s) else None) \<and>
   feeds K (newEscapeInterpreter K OutputNormal) (0x1b # map rune ''[31mX'') =
     Return ([(True, None), (True, None), (True, None), (True, None), (True, None),
              (False, None)],
       (newEscapeInterpreter K OutputNormal)\<lparr>curch := rune CHR ''X'', curFgColor := 2\<rparr>)"
proof -
  let ?c = "(curFgColor ei, curBgColor ei)"
  have out: "outputNormal K ei =
      (fst (basicResolve K (csiParam ei) ?c),
       ei\<lparr>curFgColor := fst (snd (basicResolve K (csiParam ei) ?c)),
          curBgColor := snd (snd (basicResolve K (csiParam ei) ?c))\<rparr>)"
    by (simp add: outputNormal_def outputNormal_loop_basicResolve)
  have 1: "declsLayout K \<longrightarrow>
      fst (outputNormal K ei) = fst (basicEffects (csiParam ei) (unpackAttributes K ?c)) \<and>
      unpackAttributes K
          (curFgColor (snd (outputNormal K ei)), curBgColor (snd (outputNormal K ei))) =
        snd (basicEffects (csiParam ei) (unpackAttributes K ?c))"
  proof
    assume "declsLayout K"
    from unpack_basicResolve [OF this, of "csiParam ei" ?c]
    show "fst (outputNormal K ei) = fst (basicEffects (csiParam ei) (unpackAttributes K ?c)) \<and>
      unpackAttributes K
          (curFgColor (snd (outputNormal K ei)), curBgColor (snd (outputNormal K ei))) =
        snd (basicEffects (csiParam ei) (unpackAttributes K ?c))"
      by (simp add: out)
  qed
  have 2: "state (snd (outputNormal K ei)) = state ei \<and>
   curch (snd (outputNormal K ei)) = curch ei \<and>
   csiParam (snd (outputNormal K ei)) = csiParam ei \<and>
   mode (snd (outputNormal K ei)) = mode ei \<and>
   mutex (snd (outputNormal K ei)) = mutex ei \<and>
   instruction (snd (outputNormal K ei)) = instruction ei"
    by (simp add: outputNormal_frame)
  have 3: "list_all (\<lambda>s. Atoi s \<noteq> None) ps \<longrightarrow>
      basicEffects ps a = (None, foldl (\<lambda>a s. basicEffect (the (Atoi s)) a) a ps)"
    using basicEffects_all_numeric by blast
  have 4: "list_all (\<lambda>s. Atoi s \<noteq> None) ok \<and> Atoi bad = None \<longrightarrow>
      basicEffects (ok @ bad # rest) a =
        (Some errCSIParseError, foldl (\<lambda>a s. basicEffect (the (Atoi s)) a) a ok)"
    by (simp add: basicEffects_first_bad)
  have 5: "Atoi s =
     (if numeric s \<and> - (2 ^ 63) \<le> numericValue s \<and> numericValue s < 2 ^ 63
      then Some (numericValue s) else None)"
    by (rule Atoi_numeric_in_range)
  have 6: "feeds K (newEscapeInterpreter K OutputNormal) (0x1b # map rune ''[31mX'') =
     Return ([(True, None), (True, None), (True, None), (True, None), (True, None),
              (False, None)],
       (newEscapeInterpreter K OutputNormal)\<lparr>curch := rune CHR ''X'', curFgColor := 2\<rparr>)"
    by (simp add: newEscapeInterpreter_def parseOne_def Lock_defer_Unlock_def parseOne_body_def
        parseOne_stateParams_def Let_def rune_def string_of_rune_simps outputNormal_def
        Atoi_examples outputNormal_case_def Attribute_def)
  from 1 2 3 4 5 6 show ?thesis by blast
qed

theorem outputNormal_basic_effects_witness:
  "declsLayout exampleDecls \<and>
   outputNormal exampleDecls exampleColours =
     (None, exampleColours\<lparr>curFgColor := 0x202, curBgColor := 5\<rparr>) \<and>
   unpackAttributes exampleDecls (0x202, 5) =
     \<lparr>fgSlot = 2, bgSlot = 5, isBold = True, isUnderline = False, isReverse = False\<rparr> \<and>
   basicEffects [''31'', ''1'', ''44''] (unpackAttributes exampleDecls (0, 0)) =
     (None, \<lparr>fgSlot = 2, bgSlot = 5, isBold = True, isUnderline = False, isReverse = False\<rparr>) \<and>
   list_all (\<lambda>s. Atoi s \<noteq> None) [''1'', ''31''] \<and>
   basicEffects [''1'', ''31''] (unpackAttributes exampleDecls (0, 0)) =
     (None, \<lparr>fgSlot = 2, bgSlot = 0, isBold = False, isUnderline = False, isReverse = False\<rparr>) \<and>
   Atoi ''?'' = None \<and>
   basicEffects ([''1'', ''31''] @ ''?'' # [''44'']) (unpackAttributes exampleDecls (0, 0)) =
     (Some errCSIParseError,
      \<lparr>fgSlot = 2, bgSlot = 0, isBold = False, isUnderline = False, isReverse = False\<rparr>) \<and>
   numeric ''196'' \<and> numericValue ''196'' = 196 \<and> Atoi ''196'' = Some 196"
proof -
  have l: "declsLayout exampleDecls"
    by (rule exampleDecls_layout)
  have o: "outputNormal exampleDecls exampleColours =
     (None, exampleColours\<lparr>curFgColor := 0x202, curBgColor := 5\<rparr>)"
    by (simp add: outputNormal_def exampleColours_def Atoi_examples outputNormal_case_def
        exampleDecls_def Attribute_def)
  have u: "unpackAttributes exampleDecls (0x202, 5) =
     \<lparr>fgSlot = 2, bgSlot = 5, isBold = True, isUnderline = False, isReverse = False\<rparr>"
    by (simp add: unpackAttributes_def modifierBits_def exampleDecls_def)
  have u0: "unpackAttributes exampleDecls (0, 0) =
     \<lparr>fgSlot = 0, bgSlot = 0, isBold = False, isUnderline = False, isReverse = False\<rparr>"
    by (simp add: unpackAttributes_def modifierBits_def exampleDecls_def)
  have a: "list_all (\<lambda>s. Atoi s \<noteq> None) [''1'', ''31'']" "Atoi ''?'' = None"
    "numeric ''196''" "numericValue ''196'' = 196"
    by (simp_all add: Atoi_examples isDigit_def digitsValue_def)
  note t = outputNormal_basic_effects [where K = exampleDecls and ei = exampleColours
      and ps = "[''1'', ''31'']" and a = "unpackAttributes exampleDecls (0, 0)"
      and ok = "[''1'', ''31'']" and bad = "''?''" and rest = "[''44'']" and s = "''196''"]
  from t l have r: "fst (outputNormal exampleDecls exampleColours) =
        fst (basicEffects (csiParam exampleColours)
             (unpackAttributes exampleDecls (curFgColor exampleColours, curBgColor exampleColours))) \<and>
      unpackAttributes exampleDecls
          (curFgColor (snd (outputNormal exampleDecls exampleColours)),
           curBgColor (snd (outputNormal exampleDecls exampleColours))) =
        snd (basicEffects (csiParam exampleColours)
             (unpackAttributes exampleDecls (curFgColor exampleColours, curBgColor exampleColours)))"
    by blast
  have e1: "basicEffects [''31'', ''1'', ''44''] (unpackAttributes exampleDecls (0, 0)) =
     (None, \<lparr>fgSlot = 2, bgSlot = 5, isBold = True, isUnderline = False, isReverse = False\<rparr>)"
    using r unfolding o
    by (simp add: exampleColours_def u prod_eq_iff del: basicEffects.simps)
  from t a(1) have "basicEffects [''1'', ''31''] (unpackAttributes exampleDecls (0, 0)) =
      (None, foldl (\<lambda>a s. basicEffect (the (Atoi s)) a)
         (unpackAttributes exampleDecls (0, 0)) [''1'', ''31''])"
    by blast
  then have e2: "basicEffects [''1'', ''31''] (unpackAttributes exampleDecls (0, 0)) =
     (None, \<lparr>fgSlot = 2, bgSlot = 0, isBold = False, isUnderline = False, isReverse = False\<rparr>)"
    by (simp add: u0 Atoi_examples basicEffect_def Attribute_def del: basicEffects.simps)
  from t a(1,2)
  have "basicEffects ([''1'', ''31''] @ ''?'' # [''44'']) (unpackAttributes exampleDecls (0, 0)) =
      (Some errCSIParseError, foldl (\<lambda>a s. basicEffect (the (Atoi s)) a)
         (unpackAttributes exampleDecls (0, 0)) [''1'', ''31''])"
    by blast
  then have e3: "basicEffects ([''1'', ''31''] @ ''?'' # [''44'']) (unpackAttributes exampleDecls (0, 0)) =
     (Some errCSIParseError,
      \<lparr>fgSlot = 2, bgSlot = 0, isBold = False, isUnderline = False, isReverse = False\<rparr>)"
    by (simp add: u0 Atoi_examples basicEffect_def Attribute_def del: basicEffects.simps)
  from t have "Atoi ''196'' =
     (if numeric ''196'' \<and> - (2 ^ 63) \<le> numericValue ''196'' \<and> numericValue ''196'' < 2 ^ 63
      then Some (numericValue ''196'') else None)"
    by blast
  with a(3,4) have e4: "Atoi ''196'' = Some 196"
    by simp
  from l o u e1 a(1) e2 a(2) e3 a(3,4) e4 show ?thesis by blast
qed

text \<open>
  The claim as stated fails in two places. A parameter of twenty digits is numeric and
  none of the listed codes, yet \<^verbatim>\<open>m\<close> after it returns \<^verbatim>\<open>errCSIParseError\<close> instead of ignoring
  it: its value does not fit \<^verbatim>\<open>int\<close>. And the specification's table, in which the codes
  30 to 37 set the foreground slot only, keeps Bold through \<^verbatim>\<open>ESC [ 1 ; 3 1 m\<close>, while the
  code leaves the foreground attribute 2, with no flag in it.
\<close>

theorem outputNormal_basic_counterexample:
  "numeric ''99999999999999999999'' \<and>
   feeds exampleDecls (newEscapeInterpreter exampleDecls OutputNormal)
     (0x1b # map rune ''[99999999999999999999'') =
     Return ([(True, None), (True, None),
              (True, None), (True, None), (True, None), (True, None), (True, None),
              (True, None), (True, None), (True, None), (True, None), (True, None),
              (True, None), (True, None), (True, None), (True, None), (True, None),
              (True, None), (True, None), (True, None), (True, None), (True, None)],
       exampleHugeParam) \<and>
   parseOne exampleDecls exampleHugeParam (rune CHR ''m'') =
     Return ((False, Some errCSIParseError), exampleHugeParam\<lparr>curch := rune CHR ''m''\<rparr>) \<and>
   feeds exampleDecls (newEscapeInterpreter exampleDecls OutputNormal)
     (0x1b # map rune ''[1;31m'') =
     Return ([(True, None), (True, None), (True, None), (True, None), (True, None),
              (True, None), (True, None)],
       (newEscapeInterpreter exampleDecls OutputNormal)
         \<lparr>curch := rune CHR ''m'', curFgColor := 2\<rparr>) \<and>
   unpackAttributes exampleDecls (2, 0) =
     \<lparr>fgSlot = 2, bgSlot = 0, isBold = False, isUnderline = False, isReverse = False\<rparr> \<and>
   foldl (\<lambda>a code. specBasicParam code a) (unpackAttributes exampleDecls (0, 0)) [1, 31] =
     \<lparr>fgSlot = 2, bgSlot = 0, isBold = True, isUnderline = False, isReverse = False\<rparr>"
proof -
  have 1: "numeric ''99999999999999999999''"
    by (simp add: isDigit_def)
  have 2: "feeds exampleDecls (newEscapeInterpreter exampleDecls OutputNormal)
     (0x1b # map rune ''[99999999999999999999'') =
     Return ([(True, None), (True, None),
              (True, None), (True, None), (True, None), (True, None), (True, None),
              (True, None), (True, None), (True, None), (True, None), (True, None),
              (True, None), (True, None), (True, None), (True, None), (True, None),
              (True, None), (True, None), (True, None), (True, None), (True, None)],
       exampleHugeParam)"
    by (simp add: newEscapeInterpreter_def parseOne_def Lock_defer_Unlock_def parseOne_body_def
        parseOne_stateParams_def Let_def rune_def string_of_rune_simps exampleHugeParam_def
        exampleDecls_def NONE_def)
  have a: "Atoi ''99999999999999999999'' = None"
    by (simp add: Atoi_def isDigit_def digitsValue_def intSize_def)
  have 3: "parseOne exampleDecls exampleHugeParam (rune CHR ''m'') =
     Return ((False, Some errCSIParseError), exampleHugeParam\<lparr>curch := rune CHR ''m''\<rparr>)"
    by (simp add: parseOne_def Lock_defer_Unlock_def parseOne_body_def
        parseOne_stateParams_def Let_def rune_def exampleHugeParam_def outputNormal_def a)
  have 4: "feeds exampleDecls (newEscapeInterpreter exampleDecls OutputNormal)
     (0x1b # map rune ''[1;31m'') =
     Return ([(True, None), (True, None), (True, None), (True, None), (True, None),
              (True, None), (True, None)],
       (newEscapeInterpreter exampleDecls OutputNormal)
         \<lparr>curch := rune CHR ''m'', curFgColor := 2\<rparr>)"
    by (simp add: newEscapeInterpreter_def parseOne_def Lock_defer_Unlock_def parseOne_body_def
        parseOne_stateParams_def Let_def rune_def string_of_rune_simps outputNormal_def
        Atoi_examples outputNormal_case_def Attribute_def exampleDecls_def)
  have 5: "unpackAttributes exampleDecls (2, 0) =
     \<lparr>fgSlot = 2, bgSlot = 0, isBold = False, isUnderline = False, isReverse = False\<rparr>"
    by (simp add: unpackAttributes_def modifierBits_def exampleDecls_def)
  have 6: "foldl (\<lambda>a code. specBasicParam code a) (unpackAttributes exampleDecls (0, 0)) [1, 31] =
     \<lparr>fgSlot = 2, bgSlot = 0, isBold = True, isUnderline = False, isReverse = False\<rparr>"
    by (simp add: unpackAttributes_def modifierBits_def exampleDecls_def specBasicParam_def
        Attribute_def)
  from 1 2 3 4 5 6 show ?thesis by blast
qed

subsection \<open>The terminators beyond the sanity bounds\<close>

text \<open>
  Claim C7 as stated fails where the sanity checks do not pass: after \<^verbatim>\<open>ESC [ 2\<close> and
  twenty \<^verbatim>\<open>;\<close>, every call accepted, the state is Params with 21 parameters, and feeding
  \<^verbatim>\<open>A\<close> returns \<^verbatim>\<open>errCSITooLong\<close>, latches nothing and stays in Params.
\<close>

theorem parseOne_cursor_counterexample:
  "feeds exampleDecls (newEscapeInterpreter exampleDecls OutputNormal)
     (0x1b # map rune ''[2;;;;;;;;;;;;;;;;;;;;'') =
     Return ([(True, None), (True, None), (True, None),
              (True, None), (True, None), (True, None), (True, None), (True, None),
              (True, None), (True, None), (True, None), (True, None), (True, None),
              (True, None), (True, None), (True, None), (True, None), (True, None),
              (True, None), (True, None), (True, None), (True, None), (True, None)],
       exampleTwentyOneCursor) \<and>
   state exampleTwentyOneCursor = stateParams \<and>
   Atoi (hd (csiParam exampleTwentyOneCursor)) = Some 2 \<and>
   parseOne exampleDecls exampleTwentyOneCursor (rune CHR ''A'') =
     Return ((False, Some errCSITooLong), exampleTwentyOneCursor) \<and>
   kind (instruction exampleTwentyOneCursor) = NONE"
  by (simp add: newEscapeInterpreter_def parseOne_def Lock_defer_Unlock_def parseOne_body_def
      parseOne_stateParams_def Let_def rune_def string_of_rune_simps exampleTwentyOneCursor_def
      exampleDecls_def Atoi_examples)

text \<open>
  Claim C9 as stated fails in the same way: after \<^verbatim>\<open>ESC [ 3 1 ; ?\<close> and nineteen \<^verbatim>\<open>;\<close> the
  parameter list has the colour 31 followed by a parameter that is not a number, and
  feeding \<^verbatim>\<open>m\<close> returns \<^verbatim>\<open>errCSITooLong\<close>, not \<^verbatim>\<open>errCSIParseError\<close>, with the foreground still
  the default: the colour has not been applied.
\<close>

theorem parseOne_m_counterexample:
  "feeds exampleDecls (newEscapeInterpreter exampleDecls OutputNormal)
     (0x1b # map rune ''[31;?;;;;;;;;;;;;;;;;;;;'') =
     Return ([(True, None), (True, None), (True, None), (True, None), (True, None),
              (True, None), (True, None), (True, None), (True, None), (True, None),
              (True, None), (True, None), (True, None), (True, None), (True, None),
              (True, None), (True, None), (True, None), (True, None), (True, None),
              (True, None), (True, None), (True, None), (True, None), (True, None)],
       exampleTwentyOneBad) \<and>
   mode exampleTwentyOneBad = OutputNormal \<and>
   state exampleTwentyOneBad = stateParams \<and>
   take 2 (csiParam exampleTwentyOneBad) = [''31'', ''?''] \<and>
   Atoi ''31'' = Some 31 \<and> Atoi ''?'' = None \<and>
   parseOne exampleDecls exampleTwentyOneBad (rune CHR ''m'') =
     Return ((False, Some errCSITooLong), exampleTwentyOneBad) \<and>
   curFgColor exampleTwentyOneBad = ColorDefault exampleDecls"
  by (simp add: newEscapeInterpreter_def parseOne_def Lock_defer_Unlock_def parseOne_body_def
      parseOne_stateParams_def Let_def rune_def string_of_rune_simps exampleTwentyOneBad_def
      exampleDecls_def Atoi_examples)

end
